theory Spec2Isabelle
  imports Complex_Main "HOL-Library.Sublist"
begin

section \<open>Values, errors and rendering\<close>

text \<open>
  The orchestrator passes JSON-like Python values around: task parameters, decision
  contexts and issues are all \<^verbatim>\<open>Dict[str, Any]\<close>. A dictionary is an association list
  (with distinct keys), read with \<^const>\<open>map_of\<close>. Python floats are modelled by exact
  reals: rounding, infinities and NaN are outside the model. A character is a code point
  below 256.
\<close>

datatype pyval =
    PNone
  | PBool bool
  | PInt int
  | PFloat real
  | PStr string
  | PList "pyval list"
  | PDict "(string \<times> pyval) list"

type_synonym pydict = "(string \<times> pyval) list"

text \<open>A \<^verbatim>\<open>datetime\<close> is kept abstract: a count of microseconds.\<close>

type_synonym datetime = nat

text \<open>\<^verbatim>\<open>key in d\<close> and \<^verbatim>\<open>d.get(key, default)\<close>.\<close>

definition has_key :: "pydict \<Rightarrow> string \<Rightarrow> bool" where
  "has_key d k = (map_of d k \<noteq> None)"

definition dict_get :: "pydict \<Rightarrow> string \<Rightarrow> pyval \<Rightarrow> pyval" where
  "dict_get d k dflt = (case map_of d k of None \<Rightarrow> dflt | Some v \<Rightarrow> v)"

text \<open>\<^verbatim>\<open>type(v).__name__\<close> and the truth value \<^verbatim>\<open>bool(v)\<close>.\<close>

fun type_name :: "pyval \<Rightarrow> string" where
  "type_name PNone = ''NoneType''"
| "type_name (PBool b) = ''bool''"
| "type_name (PInt i) = ''int''"
| "type_name (PFloat r) = ''float''"
| "type_name (PStr s) = ''str''"
| "type_name (PList xs) = ''list''"
| "type_name (PDict kvs) = ''dict''"

fun truthy :: "pyval \<Rightarrow> bool" where
  "truthy PNone = False"
| "truthy (PBool b) = b"
| "truthy (PInt i) = (i \<noteq> 0)"
| "truthy (PFloat r) = (r \<noteq> 0)"
| "truthy (PStr s) = (s \<noteq> [])"
| "truthy (PList xs) = (xs \<noteq> [])"
| "truthy (PDict kvs) = (kvs \<noteq> [])"

text \<open>
  The exceptions the core can raise, each with its argument; \<open>str_error\<close> is \<^verbatim>\<open>str(e)\<close>,
  which for a \<^verbatim>\<open>KeyError\<close> is the \<^verbatim>\<open>repr\<close> of the key.
\<close>

datatype pyerror =
    ValueError string
  | IndexError string
  | KeyError string
  | TypeError string

subsection \<open>\<^verbatim>\<open>str\<close> and \<^verbatim>\<open>repr\<close>\<close>

fun str_nat :: "nat \<Rightarrow> string" where
  "str_nat n =
     (if n < 10 then [''0123456789'' ! n]
      else str_nat (n div 10) @ [''0123456789'' ! (n mod 10)])"

declare str_nat.simps [simp del]

definition str_int :: "int \<Rightarrow> string" where
  "str_int i = (if i < 0 then CHR ''-'' # str_nat (nat (- i)) else str_nat (nat i))"

definition hex2 :: "nat \<Rightarrow> string" where
  "hex2 n = [''0123456789abcdef'' ! (n div 16), ''0123456789abcdef'' ! (n mod 16)]"

text \<open>
  \<^verbatim>\<open>repr\<close> of a string: single quotes, unless the string has a single quote and no
  double quote; the quote and the backslash are escaped, tab, newline and carriage
  return are written \<^verbatim>\<open>\t\<close>, \<^verbatim>\<open>\n\<close>, \<^verbatim>\<open>\r\<close>, and every other non-printable character
  (controls, DEL, 0x80 to 0xa0, 0xad) as \<^verbatim>\<open>\xhh\<close>.
\<close>

definition repr_char :: "char \<Rightarrow> char \<Rightarrow> string" where
  "repr_char quote c =
     (let n = (of_char c :: nat) in
      if c = quote \<or> n = 92 then [CHR 0x5C, c]
      else if n = 9 then [CHR 0x5C, CHR ''t'']
      else if n = 10 then [CHR 0x5C, CHR ''n'']
      else if n = 13 then [CHR 0x5C, CHR ''r'']
      else if n < 32 \<or> n = 127 then [CHR 0x5C, CHR ''x''] @ hex2 n
      else if n < 127 then [c]
      else if n \<le> 160 \<or> n = 173 then [CHR 0x5C, CHR ''x''] @ hex2 n
      else [c])"

definition repr_str :: "string \<Rightarrow> string" where
  "repr_str s =
     (let quote = (if CHR 0x27 \<in> set s \<and> CHR 0x22 \<notin> set s then CHR 0x22 else CHR 0x27)
      in quote # concat (map (repr_char quote) s) @ [quote])"

text \<open>\<^verbatim>\<open>sep.join(parts)\<close>.\<close>

fun join :: "string \<Rightarrow> string list \<Rightarrow> string" where
  "join sep [] = []"
| "join sep [x] = x"
| "join sep (x # y # ys) = x @ sep @ join sep (y # ys)"

text \<open>
  \<^verbatim>\<open>repr(v)\<close> and \<^verbatim>\<open>str(v)\<close>. The shortest round-trip rendering of a float is not
  modelled: it is the parameter \<open>fr\<close> of every function that renders a value.
\<close>

fun py_repr :: "(real \<Rightarrow> string) \<Rightarrow> pyval \<Rightarrow> string" where
  "py_repr fr PNone = ''None''"
| "py_repr fr (PBool b) = (if b then ''True'' else ''False'')"
| "py_repr fr (PInt i) = str_int i"
| "py_repr fr (PFloat r) = fr r"
| "py_repr fr (PStr s) = repr_str s"
| "py_repr fr (PList xs) = ''['' @ join '', '' (map (py_repr fr) xs) @ '']''"
| "py_repr fr (PDict kvs) =
     ''{'' @ join '', '' (map (\<lambda>kv. repr_str (fst kv) @ '': '' @ py_repr fr (snd kv)) kvs) @ ''}''"

definition py_str :: "(real \<Rightarrow> string) \<Rightarrow> pyval \<Rightarrow> string" where
  "py_str fr v = (case v of PStr s \<Rightarrow> s | _ \<Rightarrow> py_repr fr v)"

fun str_error :: "pyerror \<Rightarrow> string" where
  "str_error (ValueError m) = m"
| "str_error (IndexError m) = m"
| "str_error (KeyError k) = repr_str k"
| "str_error (TypeError m) = m"

subsection \<open>Arithmetic and comparison on values\<close>

text \<open>
  \<^verbatim>\<open>x * v\<close> for a float \<open>x\<close>: a number multiplies (a bool counts as 0 or 1), a sequence
  and every other value raise \<^verbatim>\<open>TypeError\<close>.
\<close>

definition quoted :: "string \<Rightarrow> string" where
  "quoted s = CHR 0x27 # s @ [CHR 0x27]"

definition no_seq_mul :: string where
  "no_seq_mul = ''can'' @ [CHR 0x27] @ ''t multiply sequence by non-int of type '' @ quoted ''float''"

fun float_mul :: "real \<Rightarrow> pyval \<Rightarrow> pyerror + real" where
  "float_mul x (PBool b) = Inr (x * (if b then 1 else 0))"
| "float_mul x (PInt i) = Inr (x * real_of_int i)"
| "float_mul x (PFloat r) = Inr (x * r)"
| "float_mul x (PStr s) = Inl (TypeError no_seq_mul)"
| "float_mul x (PList xs) = Inl (TypeError no_seq_mul)"
| "float_mul x v =
     Inl (TypeError (''unsupported operand type(s) for *: '' @ quoted ''float'' @ '' and '' @
       quoted (type_name v)))"

text \<open>\<^verbatim>\<open>v < n\<close> for an int \<open>n\<close>.\<close>

fun less_int :: "pyval \<Rightarrow> int \<Rightarrow> pyerror + bool" where
  "less_int (PBool b) n = Inr ((if b then 1 else 0) < n)"
| "less_int (PInt i) n = Inr (i < n)"
| "less_int (PFloat r) n = Inr (r < real_of_int n)"
| "less_int v n =
     Inl (TypeError (quoted ''<'' @ '' not supported between instances of '' @
       quoted (type_name v) @ '' and '' @ quoted ''int''))"

section \<open>DecisionMakerAgent\<close>

text \<open>
  An option is a dictionary with the keys \<^verbatim>\<open>action\<close>, \<^verbatim>\<open>impact\<close> and \<^verbatim>\<open>cost\<close>. A
  decision is the dictionary built by \<^verbatim>\<open>make_decision\<close>; its key \<^verbatim>\<open>type\<close> is the
  field \<open>decision_type\<close>. \<^verbatim>\<open>make_decision\<close> never writes a key \<^verbatim>\<open>success\<close>, but
  \<^verbatim>\<open>_calculate_confidence\<close> reads it from the history with \<^verbatim>\<open>d.get('success', True)\<close>:
  the field \<open>success_flag\<close> is that key, \<open>None\<close> when it is absent.
\<close>

record decision_option =
  action :: string
  impact :: string
  cost :: string

record decision =
  decision_id :: string
  decision_type :: string
  decision_context :: pydict
  options :: "decision_option list"
  selected_option :: decision_option
  confidence :: real
  reasoning :: string
  decision_timestamp :: string
  success_flag :: "pyval option"

text \<open>The agent's state; \<^verbatim>\<open>learning_weights\<close> is never read or written.\<close>

record DecisionMakerAgent =
  decision_history :: "decision list"

definition classify_decision_type :: "pydict \<Rightarrow> string" where
  "classify_decision_type ctx =
     (if has_key ctx ''performance_issue'' then ''performance_optimization''
      else if has_key ctx ''security_alert'' then ''security_response''
      else if has_key ctx ''resource_constraint'' then ''resource_allocation''
      else if has_key ctx ''business_opportunity'' then ''business_strategy''
      else ''operational_decision'')"

definition generate_options :: "pydict \<Rightarrow> decision_option list" where
  "generate_options ctx =
     (let decision_type = classify_decision_type ctx in
      if decision_type = ''performance_optimization'' then
        [\<lparr>action = ''scale_resources'', impact = ''high'', cost = ''medium''\<rparr>,
         \<lparr>action = ''optimize_algorithms'', impact = ''medium'', cost = ''low''\<rparr>,
         \<lparr>action = ''restart_services'', impact = ''medium'', cost = ''low''\<rparr>,
         \<lparr>action = ''investigate_root_cause'', impact = ''high'', cost = ''low''\<rparr>]
      else if decision_type = ''security_response'' then
        [\<lparr>action = ''isolate_affected_systems'', impact = ''high'', cost = ''high''\<rparr>,
         \<lparr>action = ''update_security_policies'', impact = ''medium'', cost = ''low''\<rparr>,
         \<lparr>action = ''notify_security_team'', impact = ''high'', cost = ''low''\<rparr>,
         \<lparr>action = ''run_security_scan'', impact = ''medium'', cost = ''low''\<rparr>]
      else if decision_type = ''resource_allocation'' then
        [\<lparr>action = ''allocate_more_resources'', impact = ''high'', cost = ''high''\<rparr>,
         \<lparr>action = ''optimize_current_resources'', impact = ''medium'', cost = ''low''\<rparr>,
         \<lparr>action = ''queue_tasks'', impact = ''low'', cost = ''none''\<rparr>,
         \<lparr>action = ''implement_caching'', impact = ''medium'', cost = ''medium''\<rparr>]
      else [])"

definition impact_score :: "string \<Rightarrow> real" where
  "impact_score i =
     (if i = ''high'' then 3 else if i = ''medium'' then 2 else if i = ''low'' then 1 else 1)"

definition cost_score :: "string \<Rightarrow> real" where
  "cost_score c =
     (if c = ''none'' then 3 else if c = ''low'' then 2 else if c = ''medium'' then 1
      else if c = ''high'' then 0 else 1)"

text \<open>
  \<^verbatim>\<open>(impact_score * 0.6 + cost_score * 0.4) * context_weight\<close>, the weight being
  \<^verbatim>\<open>context['urgency']\<close> when the key is there, of whatever type it is.
\<close>

definition calculate_option_score :: "decision_option \<Rightarrow> pydict \<Rightarrow> pyerror + real" where
  "calculate_option_score opt ctx =
     (let base = impact_score (impact opt) * (6 / 10) + cost_score (cost opt) * (4 / 10) in
      case map_of ctx ''urgency'' of
        None \<Rightarrow> Inr (base * 1)
      | Some w \<Rightarrow> float_mul base w)"

text \<open>
  The loop of \<^verbatim>\<open>_select_best_option\<close>, on the pair \<^verbatim>\<open>(best_option, best_score)\<close>;
  a score that cannot be computed raises out of the loop.
\<close>

fun select_loop ::
  "decision_option list \<Rightarrow> pydict \<Rightarrow> decision_option option \<times> real \<Rightarrow>
   pyerror + (decision_option option \<times> real)" where
  "select_loop [] ctx best = Inr best"
| "select_loop (opt # opts) ctx (best_option, best_score) =
     (case calculate_option_score opt ctx of
        Inl e \<Rightarrow> Inl e
      | Inr score \<Rightarrow>
          if score > best_score then select_loop opts ctx (Some opt, score)
          else select_loop opts ctx (best_option, best_score))"

text \<open>
  \<^verbatim>\<open>return best_option or options[0]\<close>: an option is a non-empty dictionary, hence
  true; with no best option the first option is returned, and indexing the empty list
  raises \<^verbatim>\<open>IndexError\<close>.
\<close>

definition select_best_option :: "decision_option list \<Rightarrow> pydict \<Rightarrow> pyerror + decision_option" where
  "select_best_option opts ctx =
     (case select_loop opts ctx (None, - 1) of
        Inl e \<Rightarrow> Inl e
      | Inr (best_option, best_score) \<Rightarrow>
          (case best_option of
             Some opt \<Rightarrow> Inr opt
           | None \<Rightarrow>
               (case opts of
                  [] \<Rightarrow> Inl (IndexError ''list index out of range'')
                | opt # _ \<Rightarrow> Inr opt)))"

text \<open>\<^verbatim>\<open>d.get('success', True)\<close>, taken as a truth value.\<close>

definition counts_as_success :: "decision \<Rightarrow> bool" where
  "counts_as_success d = (case success_flag d of None \<Rightarrow> True | Some v \<Rightarrow> truthy v)"

definition similar_decisions :: "decision list \<Rightarrow> pydict \<Rightarrow> decision list" where
  "similar_decisions history ctx =
     filter (\<lambda>d. decision_type d = classify_decision_type ctx) history"

definition calculate_confidence :: "decision list \<Rightarrow> decision_option \<Rightarrow> pydict \<Rightarrow> real" where
  "calculate_confidence history opt ctx =
     (let base_confidence = 7 / 10;
          similar = similar_decisions history ctx;
          base_confidence =
            (if similar \<noteq> [] then
               (let success_rate =
                      real (length (filter counts_as_success similar)) / real (length similar)
                in (base_confidence + success_rate) / 2)
             else base_confidence)
      in min 1 base_confidence)"

definition generate_reasoning :: "decision_option \<Rightarrow> pydict \<Rightarrow> pyerror + string" where
  "generate_reasoning opt ctx =
     (let reasoning = ''Selected '' @ action opt @ '' because it has '' @ impact opt @
            '' impact and '' @ cost opt @ '' cost.'';
          reasoning =
            (if truthy (dict_get ctx ''urgency'' PNone)
             then reasoning @ '' High urgency situation requires immediate action.''
             else reasoning)
      in case less_int (dict_get ctx ''available_resources'' (PInt 0)) 100 of
           Inl e \<Rightarrow> Inl e
         | Inr low \<Rightarrow>
             Inr (if low then reasoning @ '' Resource constraints favor cost-effective solutions.''
                  else reasoning))"

text \<open>
  \<^verbatim>\<open>make_decision\<close>: \<open>t\<close> is \<^verbatim>\<open>int(time.time())\<close> and \<open>stamp\<close> is
  \<^verbatim>\<open>datetime.now().isoformat()\<close>. The handler logs and re-raises, so an exception leaves
  the history as it was; otherwise the decision is appended to the history and returned.
\<close>

definition make_decision ::
  "DecisionMakerAgent \<Rightarrow> pydict \<Rightarrow> int \<Rightarrow> string \<Rightarrow> pyerror + (decision \<times> DecisionMakerAgent)" where
  "make_decision agent ctx t stamp =
     (let did = ''decision_'' @ str_int t;
          dtype = classify_decision_type ctx;
          decision_options = generate_options ctx
      in case select_best_option decision_options ctx of
           Inl e \<Rightarrow> Inl e
         | Inr best_option \<Rightarrow>
             (case generate_reasoning best_option ctx of
                Inl e \<Rightarrow> Inl e
              | Inr why \<Rightarrow>
                  (let d = \<lparr>decision_id = did, decision_type = dtype, decision_context = ctx,
                             options = decision_options, selected_option = best_option,
                             confidence = calculate_confidence (decision_history agent) best_option ctx,
                             reasoning = why, decision_timestamp = stamp, success_flag = None\<rparr>
                   in Inr (d, agent\<lparr>decision_history := decision_history agent @ [d]\<rparr>))))"

section \<open>ProcessAutomatorAgent\<close>

text \<open>
  A step is a dictionary with the keys \<^verbatim>\<open>action\<close> and \<^verbatim>\<open>timeout\<close>; a template is the
  list under its key \<^verbatim>\<open>steps\<close>. A step result is the dictionary a step executor
  returns: the keys \<^verbatim>\<open>action\<close>, \<^verbatim>\<open>success\<close> and \<^verbatim>\<open>duration\<close>, with \<^verbatim>\<open>result\<close> on
  success and \<^verbatim>\<open>error\<close> on failure (a key that is absent is \<open>None\<close>). The outcome is the
  dictionary \<^verbatim>\<open>execute_automation\<close> returns: it has the key \<^verbatim>\<open>results\<close> on success and
  the key \<^verbatim>\<open>error\<close> on failure.
\<close>

record step =
  step_action :: string
  step_timeout :: nat

record step_result =
  result_action :: string
  result_success :: bool
  result_duration :: real
  result_text :: "string option"
  result_error :: "string option"

record outcome =
  process_id :: string
  success :: bool
  error :: "string option"
  results :: "step_result list option"
  completed_steps :: nat
  total_steps :: nat

definition templates :: "(string \<times> step list) list" where
  "templates =
     [(''deployment'',
        [\<lparr>step_action = ''validate_config'', step_timeout = 30\<rparr>,
         \<lparr>step_action = ''build_images'', step_timeout = 300\<rparr>,
         \<lparr>step_action = ''run_tests'', step_timeout = 120\<rparr>,
         \<lparr>step_action = ''deploy_services'', step_timeout = 180\<rparr>,
         \<lparr>step_action = ''verify_deployment'', step_timeout = 60\<rparr>]),
      (''scaling'',
        [\<lparr>step_action = ''analyze_load'', step_timeout = 30\<rparr>,
         \<lparr>step_action = ''calculate_requirements'', step_timeout = 15\<rparr>,
         \<lparr>step_action = ''provision_resources'', step_timeout = 120\<rparr>,
         \<lparr>step_action = ''update_configuration'', step_timeout = 30\<rparr>,
         \<lparr>step_action = ''verify_scaling'', step_timeout = 60\<rparr>]),
      (''backup'',
        [\<lparr>step_action = ''prepare_backup'', step_timeout = 30\<rparr>,
         \<lparr>step_action = ''create_backup'', step_timeout = 600\<rparr>,
         \<lparr>step_action = ''verify_backup'', step_timeout = 60\<rparr>,
         \<lparr>step_action = ''cleanup_old_backups'', step_timeout = 120\<rparr>])]"

text \<open>
  \<^verbatim>\<open>templates.get(process_type)\<close>. From a task the process type is
  \<^verbatim>\<open>task.parameters.get('process_type')\<close>, any value: a list or a dictionary is not
  hashable, every other value that is not a registered name finds nothing.
\<close>

definition get_process_template :: "pyval \<Rightarrow> pyerror + step list option" where
  "get_process_template process_type =
     (case process_type of
        PStr name \<Rightarrow> Inr (map_of templates name)
      | PList xs \<Rightarrow> Inl (TypeError (''unhashable type: '' @ quoted ''list''))
      | PDict kvs \<Rightarrow> Inl (TypeError (''unhashable type: '' @ quoted ''dict''))
      | _ \<Rightarrow> Inr None)"

text \<open>
  \<^verbatim>\<open>_execute_step\<close> as the source has it: a simulated step that always succeeds (no
  statement of its \<^verbatim>\<open>try\<close> block can raise on a step of a template).
\<close>

definition execute_step :: "step \<Rightarrow> pydict \<Rightarrow> step_result" where
  "execute_step s params =
     \<lparr>result_action = step_action s, result_success = True, result_duration = 1,
      result_text = Some (''Successfully executed '' @ step_action s), result_error = None\<rparr>"

text \<open>
  The loop over \<^verbatim>\<open>template['steps']\<close>, with the list \<^verbatim>\<open>results\<close> gathered so far.
  The step executor is \<^verbatim>\<open>self._execute_step\<close>, a method looked up on the agent: it is the
  parameter \<open>exec\<close>. A result that reports failure ends the loop; reading its key
  \<^verbatim>\<open>error\<close> raises \<^verbatim>\<open>KeyError\<close> when the key is absent.
\<close>

fun run_steps ::
  "(step \<Rightarrow> pydict \<Rightarrow> step_result) \<Rightarrow> pydict \<Rightarrow> string \<Rightarrow> nat \<Rightarrow> step list \<Rightarrow>
   step_result list \<Rightarrow> pyerror + outcome" where
  "run_steps exec params pid n_total [] gathered =
     Inr \<lparr>process_id = pid, success = True, error = None, results = Some gathered,
          completed_steps = length gathered, total_steps = n_total\<rparr>"
| "run_steps exec params pid n_total (s # rest) gathered =
     (let step_result = exec s params;
          gathered = gathered @ [step_result]
      in if \<not> result_success step_result then
           (case result_error step_result of
              None \<Rightarrow> Inl (KeyError ''error'')
            | Some e \<Rightarrow>
                Inr \<lparr>process_id = pid, success = False, error = Some e, results = None,
                     completed_steps = length gathered, total_steps = n_total\<rparr>)
         else run_steps exec params pid n_total rest gathered)"

text \<open>
  \<^verbatim>\<open>execute_automation\<close> with the step executor \<open>exec\<close>; \<open>t\<close> is \<^verbatim>\<open>int(time.time())\<close>.
  A process type with no template raises \<^verbatim>\<open>ValueError\<close>; the handler logs and re-raises.
\<close>

definition execute_automation_with ::
  "(step \<Rightarrow> pydict \<Rightarrow> step_result) \<Rightarrow> (real \<Rightarrow> string) \<Rightarrow> int \<Rightarrow> pyval \<Rightarrow> pydict \<Rightarrow>
   pyerror + outcome" where
  "execute_automation_with exec fr t process_type params =
     (let pid = ''automation_'' @ str_int t in
      case get_process_template process_type of
        Inl e \<Rightarrow> Inl e
      | Inr None \<Rightarrow> Inl (ValueError (''Unknown process type: '' @ py_str fr process_type))
      | Inr (Some steps) \<Rightarrow> run_steps exec params pid (length steps) steps [])"

definition execute_automation ::
  "(real \<Rightarrow> string) \<Rightarrow> int \<Rightarrow> pyval \<Rightarrow> pydict \<Rightarrow> pyerror + outcome" where
  "execute_automation = execute_automation_with execute_step"

section \<open>SelfHealerAgent\<close>

record diagnosis =
  issue_type :: string
  severity :: string
  root_cause :: string
  diagnosis_confidence :: real

text \<open>
  \<^verbatim>\<open>_diagnose_issue\<close>: the patterns are looked for, in this order, in the text
  \<^verbatim>\<open>str(symptoms)\<close>, where \<^verbatim>\<open>symptoms = issue.get('symptoms', [])\<close>; \<^verbatim>\<open>p in text\<close> is
  \<^const>\<open>sublist\<close>.
\<close>

definition symptoms_text :: "(real \<Rightarrow> string) \<Rightarrow> pydict \<Rightarrow> string" where
  "symptoms_text fr issue = py_str fr (dict_get issue ''symptoms'' (PList []))"

definition diagnose_issue :: "(real \<Rightarrow> string) \<Rightarrow> pydict \<Rightarrow> diagnosis" where
  "diagnose_issue fr issue =
     (if sublist ''connection_refused'' (symptoms_text fr issue) then
        \<lparr>issue_type = ''service_unavailable'', severity = ''high'',
         root_cause = ''Service is not running or not accessible'',
         diagnosis_confidence = 9 / 10\<rparr>
      else if sublist ''out_of_memory'' (symptoms_text fr issue) then
        \<lparr>issue_type = ''resource_exhaustion'', severity = ''critical'',
         root_cause = ''Insufficient memory resources'',
         diagnosis_confidence = 95 / 100\<rparr>
      else if sublist ''timeout'' (symptoms_text fr issue) then
        \<lparr>issue_type = ''performance_degradation'', severity = ''medium'',
         root_cause = ''Service response time exceeded threshold'',
         diagnosis_confidence = 8 / 10\<rparr>
      else
        \<lparr>issue_type = ''unknown'', severity = ''medium'',
         root_cause = ''Unable to determine root cause'',
         diagnosis_confidence = 3 / 10\<rparr>)"

record strategy =
  strategy_action :: string
  strategy_priority :: int

record healing_plan =
  plan_id :: string
  plan_issue_type :: string
  plan_severity :: string
  strategies :: "strategy list"
  estimated_duration :: int

definition healing_strategies :: "(string \<times> strategy list) list" where
  "healing_strategies =
     [(''service_unavailable'',
        [\<lparr>strategy_action = ''restart_service'', strategy_priority = 1\<rparr>,
         \<lparr>strategy_action = ''check_dependencies'', strategy_priority = 2\<rparr>,
         \<lparr>strategy_action = ''verify_configuration'', strategy_priority = 3\<rparr>]),
      (''resource_exhaustion'',
        [\<lparr>strategy_action = ''scale_resources'', strategy_priority = 1\<rparr>,
         \<lparr>strategy_action = ''optimize_memory_usage'', strategy_priority = 2\<rparr>,
         \<lparr>strategy_action = ''restart_services'', strategy_priority = 3\<rparr>]),
      (''performance_degradation'',
        [\<lparr>strategy_action = ''analyze_performance'', strategy_priority = 1\<rparr>,
         \<lparr>strategy_action = ''optimize_queries'', strategy_priority = 2\<rparr>,
         \<lparr>strategy_action = ''scale_horizontally'', strategy_priority = 3\<rparr>])]"

definition time_estimates :: "(string \<times> int) list" where
  "time_estimates =
     [(''restart_service'', 5), (''scale_resources'', 10), (''optimize_memory_usage'', 15),
      (''analyze_performance'', 20), (''investigate_issue'', 30)]"

definition estimate_healing_time :: "strategy list \<Rightarrow> int" where
  "estimate_healing_time ss =
     sum_list (map (\<lambda>s. case map_of time_estimates (strategy_action s) of
                           None \<Rightarrow> 10 | Some m \<Rightarrow> m) ss)"

definition create_healing_plan :: "diagnosis \<Rightarrow> int \<Rightarrow> healing_plan" where
  "create_healing_plan diag t =
     (let ss = (case map_of healing_strategies (issue_type diag) of
                  None \<Rightarrow> [\<lparr>strategy_action = ''investigate_issue'', strategy_priority = 1\<rparr>,
                           \<lparr>strategy_action = ''collect_logs'', strategy_priority = 2\<rparr>]
                | Some found \<Rightarrow> found)
      in \<lparr>plan_id = ''healing_plan_'' @ str_int t, plan_issue_type = issue_type diag,
          plan_severity = severity diag, strategies = ss,
          estimated_duration = estimate_healing_time ss\<rparr>)"

record strategy_result =
  executed_action :: string
  executed_priority :: int
  executed_success :: bool
  executed_duration :: real
  executed_message :: string

record healing_result =
  execution_id :: string
  strategies_executed :: nat
  total_strategies :: nat
  success_rate :: real
  strategy_results :: "strategy_result list"

definition execute_healing :: "healing_plan \<Rightarrow> int \<Rightarrow> healing_result" where
  "execute_healing plan t =
     (let rs = map (\<lambda>s. \<lparr>executed_action = strategy_action s,
                          executed_priority = strategy_priority s, executed_success = True,
                          executed_duration = 1,
                          executed_message = ''Successfully executed '' @ strategy_action s\<rparr>)
                   (strategies plan)
      in \<lparr>execution_id = ''healing_exec_'' @ str_int t, strategies_executed = length rs,
          total_strategies = length (strategies plan), success_rate = 1,
          strategy_results = rs\<rparr>)"

record healing_report =
  issue_id :: pyval
  report_diagnosis :: diagnosis
  report_healing_plan :: healing_plan
  report_healing_result :: healing_result
  report_timestamp :: string

text \<open>
  \<^verbatim>\<open>diagnose_and_heal\<close>: \<open>t_plan\<close> and \<open>t_exec\<close> are the two readings of
  \<^verbatim>\<open>int(time.time())\<close>, \<open>stamp\<close> is \<^verbatim>\<open>datetime.now().isoformat()\<close>. No statement of it
  can raise on an issue that is a dictionary.
\<close>

definition diagnose_and_heal ::
  "(real \<Rightarrow> string) \<Rightarrow> pydict \<Rightarrow> int \<Rightarrow> int \<Rightarrow> string \<Rightarrow> healing_report" where
  "diagnose_and_heal fr issue t_plan t_exec stamp =
     (let diag = diagnose_issue fr issue;
          plan = create_healing_plan diag t_plan;
          healed = execute_healing plan t_exec
      in \<lparr>issue_id = dict_get issue ''id'' (PStr ''unknown''), report_diagnosis = diag,
          report_healing_plan = plan, report_healing_result = healed,
          report_timestamp = stamp\<rparr>)"

section \<open>Tasks and system state\<close>

datatype AgentType =
    DECISION_MAKER
  | PROCESS_AUTOMATOR
  | SYSTEM_MONITOR
  | OPTIMIZER
  | SELF_HEALER

datatype TaskPriority = CRITICAL | HIGH | MEDIUM | LOW

text \<open>The \<^verbatim>\<open>.value\<close> of a \<^verbatim>\<open>TaskPriority\<close> member.\<close>

fun priority_value :: "TaskPriority \<Rightarrow> int" where
  "priority_value CRITICAL = 1"
| "priority_value HIGH = 2"
| "priority_value MEDIUM = 3"
| "priority_value LOW = 4"

text \<open>\<^verbatim>\<open>str(agent_type)\<close>, as an f-string renders a member of the enumeration.\<close>

fun agent_type_str :: "AgentType \<Rightarrow> string" where
  "agent_type_str DECISION_MAKER = ''AgentType.DECISION_MAKER''"
| "agent_type_str PROCESS_AUTOMATOR = ''AgentType.PROCESS_AUTOMATOR''"
| "agent_type_str SYSTEM_MONITOR = ''AgentType.SYSTEM_MONITOR''"
| "agent_type_str OPTIMIZER = ''AgentType.OPTIMIZER''"
| "agent_type_str SELF_HEALER = ''AgentType.SELF_HEALER''"

text \<open>
  The result payload of a task is the dictionary its agent returned: a decision, an
  outcome, a healing report, or the dictionary \<^verbatim>\<open>{'error': message}\<close> with that one key
  that \<^verbatim>\<open>_execute_task\<close> builds itself.
\<close>

datatype task_result =
    DecisionPayload decision
  | AutomationPayload outcome
  | HealingPayload healing_report
  | ErrorPayload string

record AutonomousTask =
  task_id :: string
  agent_type :: AgentType
  priority :: TaskPriority
  description :: string
  parameters :: pydict
  status :: string
  created_at :: datetime
  started_at :: "datetime option"
  completed_at :: "datetime option"
  result :: "task_result option"
  error_message :: "string option"

record SystemState =
  timestamp :: datetime
  health_score :: real
  performance_metrics :: "(string \<times> real) list"
  active_tasks :: nat
  completed_tasks :: nat
  failed_tasks :: nat
  system_load :: real
  resource_usage :: "(string \<times> real) list"

text \<open>
  The constructor call both producers use: \<^verbatim>\<open>AutonomousTask(task_id=..., ...,
  status='pending', created_at=datetime.now())\<close>, the other fields at their default
  \<^verbatim>\<open>None\<close>.
\<close>

definition new_task ::
  "string \<Rightarrow> AgentType \<Rightarrow> TaskPriority \<Rightarrow> string \<Rightarrow> pydict \<Rightarrow> datetime \<Rightarrow> AutonomousTask" where
  "new_task tid a p d ps now =
     \<lparr>task_id = tid, agent_type = a, priority = p, description = d, parameters = ps,
      status = ''pending'', created_at = now, started_at = None, completed_at = None,
      result = None, error_message = None\<rparr>"

section \<open>The task queue of the processing loop\<close>

text \<open>
  \<^verbatim>\<open>self.task_queue.append(task)\<close>: both producers add at the end of the list.
\<close>

definition enqueue :: "AutonomousTask list \<Rightarrow> AutonomousTask \<Rightarrow> AutonomousTask list" where
  "enqueue q t = q @ [t]"

text \<open>
  \<^verbatim>\<open>self.task_queue.sort(key=lambda t: t.priority.value)\<close>: Python's sort is stable, and
  so is \<^const>\<open>sort_key\<close>; a stable sort has one result only.
\<close>

definition sort_queue :: "AutonomousTask list \<Rightarrow> AutonomousTask list" where
  "sort_queue q = sort_key (\<lambda>t. priority_value (priority t)) q"

text \<open>
  The dequeue step of \<^verbatim>\<open>_task_processing_loop\<close>: nothing when the queue is empty,
  otherwise the queue is sorted in place and its first task popped. The result is the
  popped task and the queue left behind.
\<close>

definition dequeue_next ::
  "AutonomousTask list \<Rightarrow> (AutonomousTask \<times> AutonomousTask list) option" where
  "dequeue_next q =
     (if q = [] then None
      else (case sort_queue q of [] \<Rightarrow> None | t # rest \<Rightarrow> Some (t, rest)))"

section \<open>AutonomousSystemOrchestrator\<close>

text \<open>
  The orchestrator owns the decision maker (the one agent with state), the task queue and
  the system state.
\<close>

record AutonomousSystemOrchestrator =
  decision_maker :: DecisionMakerAgent
  task_queue :: "AutonomousTask list"
  system_state :: SystemState

definition init_orchestrator :: "datetime \<Rightarrow> AutonomousSystemOrchestrator" where
  "init_orchestrator now =
     \<lparr>decision_maker = \<lparr>decision_history = []\<rparr>,
      task_queue = [],
      system_state =
        \<lparr>timestamp = now, health_score = 1, performance_metrics = [], active_tasks = 0,
         completed_tasks = 0, failed_tasks = 0, system_load = 0, resource_usage = []\<rparr>\<rparr>"

subsection \<open>Executing a task\<close>

text \<open>
  The clock readings of one \<^verbatim>\<open>_execute_task\<close>: \<^verbatim>\<open>datetime.now()\<close> at the start and at
  the end, and in between the readings the agent takes (\<^verbatim>\<open>int(time.time())\<close> twice at
  most, \<^verbatim>\<open>datetime.now().isoformat()\<close>).
\<close>

record task_clock =
  started_now :: datetime
  agent_time :: int
  agent_time_later :: int
  agent_stamp :: string
  completed_now :: datetime

text \<open>
  The dispatch of \<^verbatim>\<open>_execute_task\<close> on the agent type: the agent's result, with the
  orchestrator as the agent leaves it, or the exception it raised. The automation runs
  with the agent's own \<^verbatim>\<open>_execute_step\<close>.
\<close>

definition dispatch_task ::
  "(real \<Rightarrow> string) \<Rightarrow> AutonomousSystemOrchestrator \<Rightarrow> AutonomousTask \<Rightarrow> task_clock \<Rightarrow>
   pyerror + (task_result \<times> AutonomousSystemOrchestrator)" where
  "dispatch_task fr orch task ck =
     (if agent_type task = DECISION_MAKER then
        (case make_decision (decision_maker orch) (parameters task) (agent_time ck) (agent_stamp ck) of
           Inl e \<Rightarrow> Inl e
         | Inr (d, agent') \<Rightarrow> Inr (DecisionPayload d, orch\<lparr>decision_maker := agent'\<rparr>))
      else if agent_type task = PROCESS_AUTOMATOR then
        (case execute_automation fr (agent_time ck)
                (dict_get (parameters task) ''process_type'' PNone) (parameters task) of
           Inl e \<Rightarrow> Inl e
         | Inr out \<Rightarrow> Inr (AutomationPayload out, orch))
      else if agent_type task = SELF_HEALER then
        Inr (HealingPayload
               (diagnose_and_heal fr (parameters task) (agent_time ck) (agent_time_later ck)
                  (agent_stamp ck)), orch)
      else Inr (ErrorPayload (''Unknown agent type: '' @ agent_type_str (agent_type task)), orch))"

text \<open>
  \<^verbatim>\<open>_execute_task\<close>: the task is marked in progress, dispatched, and marked completed with
  its result; an exception marks it failed with the message of the exception. The result
  is the task as it is left and the orchestrator.
\<close>

definition execute_task ::
  "(real \<Rightarrow> string) \<Rightarrow> AutonomousSystemOrchestrator \<Rightarrow> AutonomousTask \<Rightarrow> task_clock \<Rightarrow>
   AutonomousTask \<times> AutonomousSystemOrchestrator" where
  "execute_task fr orch task ck =
     (let task = task\<lparr>status := ''in_progress'', started_at := Some (started_now ck)\<rparr> in
      case dispatch_task fr orch task ck of
        Inr (res, orch') \<Rightarrow>
          (task\<lparr>result := Some res, status := ''completed'',
                completed_at := Some (completed_now ck)\<rparr>, orch')
      | Inl e \<Rightarrow>
          (task\<lparr>status := ''failed'', error_message := Some (str_error e),
                completed_at := Some (completed_now ck)\<rparr>, orch))"

text \<open>
  One iteration of \<^verbatim>\<open>_task_processing_loop\<close>: with a non-empty queue, the dequeue step and
  the execution of the popped task, which the queue no longer holds. The result is the
  executed task, if any, and the orchestrator.
\<close>

definition task_processing_iteration ::
  "(real \<Rightarrow> string) \<Rightarrow> AutonomousSystemOrchestrator \<Rightarrow> task_clock \<Rightarrow>
   AutonomousTask option \<times> AutonomousSystemOrchestrator" where
  "task_processing_iteration fr orch ck =
     (case dequeue_next (task_queue orch) of
        None \<Rightarrow> (None, orch)
      | Some (task, rest) \<Rightarrow>
          (case execute_task fr (orch\<lparr>task_queue := rest\<rparr>) task ck of
             (task', orch') \<Rightarrow> (Some task', orch')))"

subsection \<open>Monitoring\<close>

text \<open>
  \<^verbatim>\<open>_update_system_state\<close>: \<open>now\<close> is \<^verbatim>\<open>datetime.now()\<close>, and \<open>h1\<close>, \<open>h2\<close> are the two
  values of \<^verbatim>\<open>hash(str(datetime.now()))\<close>, any integers; \<^verbatim>\<open>%\<close> with a positive
  modulus is \<^const>\<open>modulo\<close> on \<^typ>\<open>int\<close>, and \<^verbatim>\<open>/\<close> is the division of reals.
\<close>

definition update_system_state ::
  "AutonomousSystemOrchestrator \<Rightarrow> datetime \<Rightarrow> int \<Rightarrow> int \<Rightarrow> AutonomousSystemOrchestrator" where
  "update_system_state orch now h1 h2 =
     orch\<lparr>system_state := (system_state orch)
       \<lparr>timestamp := now,
        health_score := 95 / 100 + real_of_int (h1 mod 10) / 100,
        active_tasks := length (filter (\<lambda>t. status t = ''in_progress'') (task_queue orch)),
        completed_tasks := completed_tasks (system_state orch) +
          length (filter (\<lambda>t. status t = ''completed'') (task_queue orch)),
        system_load := 3 / 10 + real_of_int (h2 mod 70) / 100\<rparr>\<rparr>"

definition detect_issues :: "SystemState \<Rightarrow> string \<Rightarrow> pydict list" where
  "detect_issues st stamp =
     (if health_score st < 8 / 10 then
        [[(''type'', PStr ''health_degradation''), (''severity'', PStr ''medium''),
          (''symptoms'', PList [PStr ''low_health_score'']), (''timestamp'', PStr stamp)]]
      else []) @
     (if system_load st > 9 / 10 then
        [[(''type'', PStr ''high_load''), (''severity'', PStr ''high''),
          (''symptoms'', PList [PStr ''high_system_load'']), (''timestamp'', PStr stamp)]]
      else [])"

definition detect_optimizations :: "SystemState \<Rightarrow> pydict list" where
  "detect_optimizations st =
     (if completed_tasks st > 100 then
        [[(''type'', PStr ''task_cleanup''),
          (''description'', PStr ''Clean up completed tasks''),
          (''potential_benefit'', PStr ''memory_optimization'')]]
      else [])"

text \<open>The readings of one iteration of \<^verbatim>\<open>_monitoring_loop\<close>.\<close>

record monitor_clock =
  monitor_now :: datetime
  monitor_hash_health :: int
  monitor_hash_load :: int
  monitor_time :: int
  monitor_stamp :: string

definition healing_task :: "(real \<Rightarrow> string) \<Rightarrow> monitor_clock \<Rightarrow> pydict \<Rightarrow> AutonomousTask" where
  "healing_task fr mc issue =
     new_task (''healing_'' @ str_int (monitor_time mc)) SELF_HEALER HIGH
       (''Heal issue: '' @ py_str fr (dict_get issue ''type'' (PStr ''unknown'')))
       [(''issue'', PDict issue)] (monitor_now mc)"

definition optimization_task :: "(real \<Rightarrow> string) \<Rightarrow> monitor_clock \<Rightarrow> pydict \<Rightarrow> AutonomousTask" where
  "optimization_task fr mc optimization =
     new_task (''optimization_'' @ str_int (monitor_time mc)) OPTIMIZER MEDIUM
       (''Optimize: '' @ py_str fr (dict_get optimization ''type'' (PStr ''unknown'')))
       [(''optimization'', PDict optimization)] (monitor_now mc)"

text \<open>
  One iteration of \<^verbatim>\<open>_monitoring_loop\<close>: the state is refreshed, a healing task is appended
  for every issue detected, then an optimization task for every optimization detected.
\<close>

definition monitoring_iteration ::
  "(real \<Rightarrow> string) \<Rightarrow> AutonomousSystemOrchestrator \<Rightarrow> monitor_clock \<Rightarrow>
   AutonomousSystemOrchestrator" where
  "monitoring_iteration fr orch mc =
     (let orch = update_system_state orch (monitor_now mc) (monitor_hash_health mc)
                   (monitor_hash_load mc);
          issues = detect_issues (system_state orch) (monitor_stamp mc);
          orch = orch\<lparr>task_queue := foldl enqueue (task_queue orch) (map (healing_task fr mc) issues)\<rparr>;
          optimizations = detect_optimizations (system_state orch)
      in orch\<lparr>task_queue :=
           foldl enqueue (task_queue orch) (map (optimization_task fr mc) optimizations)\<rparr>)"

subsection \<open>The REST handlers that reach the orchestrator\<close>

text \<open>
  \<^verbatim>\<open>AgentType(request.agent_type)\<close> and \<^verbatim>\<open>TaskPriority(request.priority)\<close>: the member
  with that value, if any. The request model declares \<^verbatim>\<open>priority: str\<close>, and no string
  equals a member value of \<^verbatim>\<open>TaskPriority\<close>; the field is taken here as any value, which
  also covers a request object built without validation: only a number equal to 1, 2, 3 or
  4 (\<^verbatim>\<open>True\<close> counts as 1) finds a member.
\<close>

definition agent_type_of :: "string \<Rightarrow> AgentType option" where
  "agent_type_of v =
     map_of [(''decision_maker'', DECISION_MAKER), (''process_automator'', PROCESS_AUTOMATOR),
             (''system_monitor'', SYSTEM_MONITOR), (''optimizer'', OPTIMIZER),
             (''self_healer'', SELF_HEALER)] v"

fun number_of :: "pyval \<Rightarrow> real option" where
  "number_of (PBool b) = Some (if b then 1 else 0)"
| "number_of (PInt i) = Some (real_of_int i)"
| "number_of (PFloat r) = Some r"
| "number_of v = None"

definition task_priority_of :: "pyval \<Rightarrow> TaskPriority option" where
  "task_priority_of v =
     (case number_of v of
        None \<Rightarrow> None
      | Some r \<Rightarrow>
          if r = 1 then Some CRITICAL else if r = 2 then Some HIGH
          else if r = 3 then Some MEDIUM else if r = 4 then Some LOW else None)"

record TaskRequest =
  request_agent_type :: string
  request_priority :: pyval
  request_description :: string
  request_parameters :: pydict

text \<open>\<^verbatim>\<open>HTTPException(status_code=..., detail=...)\<close>.\<close>

datatype http_error = HTTPException nat string

record task_created =
  created_task_id :: string
  created_status :: string
  created_message :: string

text \<open>
  \<^verbatim>\<open>create_task\<close>: \<open>t\<close> is \<^verbatim>\<open>int(time.time())\<close> and \<open>now\<close> is \<^verbatim>\<open>datetime.now()\<close>. A
  value that is no member raises \<^verbatim>\<open>ValueError\<close>, answered with status 400 before
  anything is appended.
\<close>

definition create_task ::
  "(real \<Rightarrow> string) \<Rightarrow> AutonomousSystemOrchestrator \<Rightarrow> TaskRequest \<Rightarrow> int \<Rightarrow> datetime \<Rightarrow>
   (http_error + task_created) \<times> AutonomousSystemOrchestrator" where
  "create_task fr orch request t now =
     (case agent_type_of (request_agent_type request) of
        None \<Rightarrow>
          (Inl (HTTPException 400
             (repr_str (request_agent_type request) @ '' is not a valid AgentType'')), orch)
      | Some a \<Rightarrow>
          (case task_priority_of (request_priority request) of
             None \<Rightarrow>
               (Inl (HTTPException 400
                  (py_repr fr (request_priority request) @ '' is not a valid TaskPriority'')), orch)
           | Some p \<Rightarrow>
               (let task = new_task (''task_'' @ str_int t) a p (request_description request)
                             (request_parameters request) now
                in (Inr \<lparr>created_task_id = task_id task, created_status = ''created'',
                         created_message = ''Task added to queue''\<rparr>,
                    orch\<lparr>task_queue := enqueue (task_queue orch) task\<rparr>))))"

text \<open>
  The handlers of \<^verbatim>\<open>POST /decisions\<close> and \<^verbatim>\<open>POST /automation/{process_type}\<close> call the
  agents of the orchestrator and return what they return; an exception of the agent leaves
  the handler as it is. The process type is a path segment, a string.
\<close>

definition rest_make_decision ::
  "AutonomousSystemOrchestrator \<Rightarrow> pydict \<Rightarrow> int \<Rightarrow> string \<Rightarrow>
   (pyerror + decision) \<times> AutonomousSystemOrchestrator" where
  "rest_make_decision orch ctx t stamp =
     (case make_decision (decision_maker orch) ctx t stamp of
        Inl e \<Rightarrow> (Inl e, orch)
      | Inr (d, agent') \<Rightarrow> (Inr d, orch\<lparr>decision_maker := agent'\<rparr>))"

definition rest_execute_automation ::
  "(real \<Rightarrow> string) \<Rightarrow> AutonomousSystemOrchestrator \<Rightarrow> string \<Rightarrow> pydict \<Rightarrow> int \<Rightarrow>
   (pyerror + outcome) \<times> AutonomousSystemOrchestrator" where
  "rest_execute_automation fr orch process_type params t =
     (execute_automation fr t (PStr process_type) params, orch)"

subsection \<open>The states the orchestrator reaches\<close>

text \<open>
  The loops and the handlers run on one cooperative event loop; a step below is a stretch
  of code that changes the orchestrator with no suspension in between. The execution of a
  task suspends in the agents, but between the dequeue step and its end it touches only
  the popped task and, for a decision, the history, in one stretch.
\<close>

inductive reachable :: "(real \<Rightarrow> string) \<Rightarrow> AutonomousSystemOrchestrator \<Rightarrow> bool"
  for fr :: "real \<Rightarrow> string" where
  initial: "reachable fr (init_orchestrator now)"
| monitoring: "reachable fr orch \<Longrightarrow> reachable fr (monitoring_iteration fr orch mc)"
| processing: "reachable fr orch \<Longrightarrow> reachable fr (snd (task_processing_iteration fr orch ck))"
| creation: "reachable fr orch \<Longrightarrow> reachable fr (snd (create_task fr orch request t now))"
| deciding: "reachable fr orch \<Longrightarrow> reachable fr (snd (rest_make_decision orch ctx t stamp))"

section \<open>Properties of the queue\<close>

lemma sort_key_head_split:
  fixes f :: "'a \<Rightarrow> int"
  shows "xs \<noteq> [] \<Longrightarrow>
    \<exists>t pre post. sort_key f xs = t # sort_key f (pre @ post) \<and> xs = pre @ t # post \<and>
      list_all (\<lambda>u. f t < f u) pre \<and> list_all (\<lambda>u. f t \<le> f u) post"
proof (induction xs)
  case Nil
  then show ?case by simp
next
  case (Cons x xs)
  show ?case
  proof (cases "xs = []")
    case True
    have "sort_key f (x # xs) = x # sort_key f ([] @ []) \<and> x # xs = [] @ x # [] \<and>
      list_all (\<lambda>u. f x < f u) [] \<and> list_all (\<lambda>u. f x \<le> f u) []"
      using True by simp
    then show ?thesis by blast
  next
    case False
    from Cons.IH [OF False] obtain t pre post where
      s: "sort_key f xs = t # sort_key f (pre @ post)" and
      d: "xs = pre @ t # post" and
      p: "list_all (\<lambda>u. f t < f u) pre" and
      q: "list_all (\<lambda>u. f t \<le> f u) post"
      by blast
    show ?thesis
    proof (cases "f x \<le> f t")
      case True
      have h: "sort_key f (x # xs) = x # sort_key f ([] @ xs)"
        using s True by simp
      have "list_all (\<lambda>u. f x \<le> f u) xs"
        using True p q d by (auto simp: list_all_iff)
      then have "sort_key f (x # xs) = x # sort_key f ([] @ xs) \<and> x # xs = [] @ x # xs \<and>
        list_all (\<lambda>u. f x < f u) [] \<and> list_all (\<lambda>u. f x \<le> f u) xs"
        using h by simp
      then show ?thesis by blast
    next
      case False
      have "sort_key f (x # xs) = t # insort_key f x (sort_key f (pre @ post))"
        using s False by simp
      then have h: "sort_key f (x # xs) = t # sort_key f ((x # pre) @ post)"
        by simp
      have "list_all (\<lambda>u. f t < f u) (x # pre)"
        using False p by simp
      then have "sort_key f (x # xs) = t # sort_key f ((x # pre) @ post) \<and>
        x # xs = (x # pre) @ t # post \<and>
        list_all (\<lambda>u. f t < f u) (x # pre) \<and> list_all (\<lambda>u. f t \<le> f u) post"
        using h d q by simp
      then show ?thesis by blast
    qed
  qed
qed

lemma sort_key_snoc_min:
  fixes f :: "'a \<Rightarrow> int"
  shows "list_all (\<lambda>u. f t < f u) xs \<Longrightarrow> sort_key f (xs @ [t]) = t # sort_key f xs"
proof (induction xs)
  case Nil
  then show ?case by simp
next
  case (Cons x xs)
  then have "sort_key f (xs @ [t]) = t # sort_key f xs" and "f t < f x"
    by simp_all
  then show ?case by simp
qed

text \<open>
  Claim C1. The dequeue step of the task-processing loop removes, among all tasks in the
  queue, a task of the numerically lowest priority value, and among tasks of that
  priority the earliest one of the queue: every task in front of it has a strictly larger
  priority value, every task behind it one at least as large. The tasks left behind keep,
  within each priority, the order they had (the sort is stable), so that tasks of equal
  priority leave in the order they were appended. A task appended after tasks of strictly
  larger priority value is dequeued before all of them. Tasks appended with priorities
  Low, Critical, Medium leave in the order Critical, Medium, Low.
\<close>

theorem dequeue_lowest_priority_first:
  "(q \<noteq> [] \<longrightarrow>
      (\<exists>t rest pre post.
         dequeue_next q = Some (t, rest) \<and> q = pre @ t # post \<and>
         list_all (\<lambda>u. priority_value (priority t) < priority_value (priority u)) pre \<and>
         list_all (\<lambda>u. priority_value (priority t) \<le> priority_value (priority u)) post \<and>
         rest = sort_queue (pre @ post) \<and>
         (\<forall>p. filter (\<lambda>u. priority u = p) rest = filter (\<lambda>u. priority u = p) (pre @ post)))) \<and>
   (list_all (\<lambda>u. priority_value (priority n) < priority_value (priority u)) q \<longrightarrow>
      dequeue_next (enqueue q n) = Some (n, sort_queue q)) \<and>
   (priority a = LOW \<and> priority b = CRITICAL \<and> priority c = MEDIUM \<longrightarrow>
      dequeue_next (enqueue (enqueue (enqueue [] a) b) c) = Some (b, [c, a]) \<and>
      dequeue_next [c, a] = Some (c, [a]) \<and>
      dequeue_next [a] = Some (a, []))"
proof (intro conjI impI)
  assume ne: "q \<noteq> []"
  let ?f = "\<lambda>t. priority_value (priority t)"
  from sort_key_head_split [OF ne, of ?f] obtain t pre post where
    s: "sort_key ?f q = t # sort_key ?f (pre @ post)" and
    d: "q = pre @ t # post" and
    p: "list_all (\<lambda>u. ?f t < ?f u) pre" and
    r: "list_all (\<lambda>u. ?f t \<le> ?f u) post"
    by blast
  have deq: "dequeue_next q = Some (t, sort_queue (pre @ post))"
    using ne s by (simp add: dequeue_next_def sort_queue_def)
  have stable: "filter (\<lambda>u. priority u = p) (sort_queue xs) = filter (\<lambda>u. priority u = p) xs"
    for p xs
  proof -
    have "filter (\<lambda>u. priority u = p) (sort_queue xs) =
          filter (\<lambda>u. priority u = p) (filter (\<lambda>u. ?f u = priority_value p) (sort_queue xs))"
      by (auto intro: filter_cong)
    also have "\<dots> = filter (\<lambda>u. priority u = p) (filter (\<lambda>u. ?f u = priority_value p) xs)"
      by (simp only: sort_queue_def sort_key_stable)
    also have "\<dots> = filter (\<lambda>u. priority u = p) xs"
      by (auto intro: filter_cong)
    finally show ?thesis .
  qed
  show "\<exists>t rest pre post.
         dequeue_next q = Some (t, rest) \<and> q = pre @ t # post \<and>
         list_all (\<lambda>u. ?f t < ?f u) pre \<and> list_all (\<lambda>u. ?f t \<le> ?f u) post \<and>
         rest = sort_queue (pre @ post) \<and>
         (\<forall>p. filter (\<lambda>u. priority u = p) rest = filter (\<lambda>u. priority u = p) (pre @ post))"
    using deq d p r stable by blast
next
  assume "list_all (\<lambda>u. priority_value (priority n) < priority_value (priority u)) q"
  then show "dequeue_next (enqueue q n) = Some (n, sort_queue q)"
    by (simp add: dequeue_next_def sort_queue_def enqueue_def sort_key_snoc_min)
next
  assume "priority a = LOW \<and> priority b = CRITICAL \<and> priority c = MEDIUM"
  then show "dequeue_next (enqueue (enqueue (enqueue [] a) b) c) = Some (b, [c, a])"
    by (simp add: dequeue_next_def sort_queue_def enqueue_def)
next
  assume "priority a = LOW \<and> priority b = CRITICAL \<and> priority c = MEDIUM"
  then show "dequeue_next [c, a] = Some (c, [a])"
    by (simp add: dequeue_next_def sort_queue_def)
next
  show "dequeue_next [a] = Some (a, [])"
    by (simp add: dequeue_next_def sort_queue_def)
qed

theorem dequeue_lowest_priority_first_witness:
  "[new_task ''a'' SELF_HEALER LOW ''heal'' [] 0,
    new_task ''b'' DECISION_MAKER CRITICAL ''decide'' [] 1,
    new_task ''c'' OPTIMIZER MEDIUM ''tune'' [] 2] \<noteq> [] \<and>
   (\<exists>t rest pre post.
      dequeue_next [new_task ''a'' SELF_HEALER LOW ''heal'' [] 0,
        new_task ''b'' DECISION_MAKER CRITICAL ''decide'' [] 1,
        new_task ''c'' OPTIMIZER MEDIUM ''tune'' [] 2] = Some (t, rest) \<and>
      [new_task ''a'' SELF_HEALER LOW ''heal'' [] 0,
        new_task ''b'' DECISION_MAKER CRITICAL ''decide'' [] 1,
        new_task ''c'' OPTIMIZER MEDIUM ''tune'' [] 2] = pre @ t # post \<and>
      list_all (\<lambda>u. priority_value (priority t) < priority_value (priority u)) pre \<and>
      list_all (\<lambda>u. priority_value (priority t) \<le> priority_value (priority u)) post \<and>
      rest = sort_queue (pre @ post) \<and>
      (\<forall>p. filter (\<lambda>u. priority u = p) rest = filter (\<lambda>u. priority u = p) (pre @ post))) \<and>
   list_all (\<lambda>u. priority_value (priority (new_task ''n'' SELF_HEALER HIGH ''heal'' [] 3))
        < priority_value (priority u))
     [new_task ''a'' SELF_HEALER LOW ''heal'' [] 0,
      new_task ''c'' OPTIMIZER MEDIUM ''tune'' [] 2] \<and>
   dequeue_next (enqueue [new_task ''a'' SELF_HEALER LOW ''heal'' [] 0,
      new_task ''c'' OPTIMIZER MEDIUM ''tune'' [] 2]
      (new_task ''n'' SELF_HEALER HIGH ''heal'' [] 3)) =
     Some (new_task ''n'' SELF_HEALER HIGH ''heal'' [] 3,
       sort_queue [new_task ''a'' SELF_HEALER LOW ''heal'' [] 0,
         new_task ''c'' OPTIMIZER MEDIUM ''tune'' [] 2]) \<and>
   priority (new_task ''a'' SELF_HEALER LOW ''heal'' [] 0) = LOW \<and>
   priority (new_task ''b'' DECISION_MAKER CRITICAL ''decide'' [] 1) = CRITICAL \<and>
   priority (new_task ''c'' OPTIMIZER MEDIUM ''tune'' [] 2) = MEDIUM \<and>
   dequeue_next (enqueue (enqueue (enqueue [] (new_task ''a'' SELF_HEALER LOW ''heal'' [] 0))
       (new_task ''b'' DECISION_MAKER CRITICAL ''decide'' [] 1))
       (new_task ''c'' OPTIMIZER MEDIUM ''tune'' [] 2)) =
     Some (new_task ''b'' DECISION_MAKER CRITICAL ''decide'' [] 1,
       [new_task ''c'' OPTIMIZER MEDIUM ''tune'' [] 2, new_task ''a'' SELF_HEALER LOW ''heal'' [] 0])"
proof -
  let ?a = "new_task ''a'' SELF_HEALER LOW ''heal'' [] 0"
  let ?b = "new_task ''b'' DECISION_MAKER CRITICAL ''decide'' [] 1"
  let ?c = "new_task ''c'' OPTIMIZER MEDIUM ''tune'' [] 2"
  let ?n = "new_task ''n'' SELF_HEALER HIGH ''heal'' [] 3"
  have pa: "priority ?a = LOW" and pb: "priority ?b = CRITICAL"
    and pc: "priority ?c = MEDIUM" and pn: "priority ?n = HIGH"
    by (simp_all add: new_task_def)
  note first = dequeue_lowest_priority_first [of "[?a, ?b, ?c]" ?n ?a ?b ?c]
  note later = dequeue_lowest_priority_first [of "[?a, ?c]" ?n ?a ?b ?c]
  have ne: "[?a, ?b, ?c] \<noteq> []" by simp
  have ex: "\<exists>t rest pre post.
      dequeue_next [?a, ?b, ?c] = Some (t, rest) \<and> [?a, ?b, ?c] = pre @ t # post \<and>
      list_all (\<lambda>u. priority_value (priority t) < priority_value (priority u)) pre \<and>
      list_all (\<lambda>u. priority_value (priority t) \<le> priority_value (priority u)) post \<and>
      rest = sort_queue (pre @ post) \<and>
      (\<forall>p. filter (\<lambda>u. priority u = p) rest = filter (\<lambda>u. priority u = p) (pre @ post))"
    using first ne by blast
  have yes: "list_all (\<lambda>u. priority_value (priority ?n) < priority_value (priority u)) [?a, ?c]"
    by (simp add: new_task_def)
  have pre: "dequeue_next (enqueue [?a, ?c] ?n) = Some (?n, sort_queue [?a, ?c])"
    using later yes by blast
  have scen: "dequeue_next (enqueue (enqueue (enqueue [] ?a) ?b) ?c) = Some (?b, [?c, ?a])"
    using first pa pb pc by blast
  show ?thesis
    using ne ex yes pre pa pb pc scen by blast
qed

section \<open>Properties of the decision maker\<close>

lemma generate_options_unlisted:
  "classify_decision_type ctx \<noteq> ''performance_optimization'' \<Longrightarrow>
   classify_decision_type ctx \<noteq> ''security_response'' \<Longrightarrow>
   classify_decision_type ctx \<noteq> ''resource_allocation'' \<Longrightarrow>
   generate_options ctx = []"
  by (simp add: generate_options_def)

lemma select_best_option_empty:
  "select_best_option [] ctx = Inl (IndexError ''list index out of range'')"
  by (simp add: select_best_option_def)

lemma make_decision_no_options:
  "generate_options ctx = [] \<Longrightarrow>
   make_decision agent ctx t stamp = Inl (IndexError ''list index out of range'')"
  by (simp add: make_decision_def select_best_option_empty)

lemma classify_without_table_keys:
  "\<not> has_key ctx ''performance_issue'' \<Longrightarrow> \<not> has_key ctx ''security_alert'' \<Longrightarrow>
   \<not> has_key ctx ''resource_constraint'' \<Longrightarrow>
   classify_decision_type ctx =
     (if has_key ctx ''business_opportunity'' then ''business_strategy''
      else ''operational_decision'')"
  by (simp add: classify_decision_type_def)

text \<open>
  Claim C5. When the classified decision type of a context is none of the three types of
  the option table (performance_optimization, security_response, resource_allocation),
  the generated option list is empty and \<^verbatim>\<open>make_decision\<close> raises \<^verbatim>\<open>IndexError\<close>
  instead of returning a decision. That is the case of every context with none of the keys
  performance_issue, security_alert and resource_constraint: it is classified
  business_strategy when it has the key business_opportunity, and operational_decision
  otherwise.
\<close>

theorem make_decision_unlisted_type_raises:
  "(classify_decision_type ctx \<noteq> ''performance_optimization'' \<and>
    classify_decision_type ctx \<noteq> ''security_response'' \<and>
    classify_decision_type ctx \<noteq> ''resource_allocation'' \<longrightarrow>
      generate_options ctx = [] \<and>
      make_decision agent ctx t stamp = Inl (IndexError ''list index out of range'')) \<and>
   (\<not> has_key ctx ''performance_issue'' \<and> \<not> has_key ctx ''security_alert'' \<and>
    \<not> has_key ctx ''resource_constraint'' \<longrightarrow>
      classify_decision_type ctx =
        (if has_key ctx ''business_opportunity'' then ''business_strategy''
         else ''operational_decision'') \<and>
      generate_options ctx = [] \<and>
      make_decision agent ctx t stamp = Inl (IndexError ''list index out of range''))"
proof (intro conjI impI)
  assume a: "classify_decision_type ctx \<noteq> ''performance_optimization'' \<and>
    classify_decision_type ctx \<noteq> ''security_response'' \<and>
    classify_decision_type ctx \<noteq> ''resource_allocation''"
  then show e: "generate_options ctx = []"
    by (simp add: generate_options_unlisted)
  then show "make_decision agent ctx t stamp = Inl (IndexError ''list index out of range'')"
    by (rule make_decision_no_options)
next
  assume k: "\<not> has_key ctx ''performance_issue'' \<and> \<not> has_key ctx ''security_alert'' \<and>
    \<not> has_key ctx ''resource_constraint''"
  then show c: "classify_decision_type ctx =
        (if has_key ctx ''business_opportunity'' then ''business_strategy''
         else ''operational_decision'')"
    by (simp add: classify_without_table_keys)
  then show e: "generate_options ctx = []"
    by (simp add: generate_options_unlisted)
  then show "make_decision agent ctx t stamp = Inl (IndexError ''list index out of range'')"
    by (rule make_decision_no_options)
qed

theorem make_decision_unlisted_type_raises_witness:
  "classify_decision_type [(''business_opportunity'', PBool True)] = ''business_strategy'' \<and>
   generate_options [(''business_opportunity'', PBool True)] = [] \<and>
   make_decision \<lparr>decision_history = []\<rparr> [(''business_opportunity'', PBool True)] 5 ''now'' =
     Inl (IndexError ''list index out of range'') \<and>
   \<not> has_key [] ''performance_issue'' \<and> \<not> has_key [] ''security_alert'' \<and>
   \<not> has_key [] ''resource_constraint'' \<and>
   classify_decision_type [] = ''operational_decision'' \<and>
   generate_options [] = [] \<and>
   make_decision \<lparr>decision_history = []\<rparr> [] 5 ''now'' =
     Inl (IndexError ''list index out of range'')"
proof -
  have c: "classify_decision_type [(''business_opportunity'', PBool True)] = ''business_strategy''"
    by (simp add: classify_decision_type_def has_key_def)
  have k: "\<not> has_key [] ''performance_issue'' \<and> \<not> has_key [] ''security_alert'' \<and>
     \<not> has_key [] ''resource_constraint''" and b: "\<not> has_key [] ''business_opportunity''"
    by (simp_all add: has_key_def)
  show ?thesis
    using c k b
      make_decision_unlisted_type_raises
        [of "[(''business_opportunity'', PBool True)]" "\<lparr>decision_history = []\<rparr>" 5 "''now''"]
      make_decision_unlisted_type_raises [of "[]" "\<lparr>decision_history = []\<rparr>" 5 "''now''"]
    by simp
qed

lemma make_decision_returned:
  "make_decision agent ctx t stamp = Inr (d, agent') \<Longrightarrow>
   decision_type d = classify_decision_type ctx \<and> success_flag d = None \<and>
   decision_history agent' = decision_history agent @ [d] \<and>
   confidence d = calculate_confidence (decision_history agent) (selected_option d) ctx"
  by (auto simp: make_decision_def Let_def split: sum.splits)

lemma success_rate_bounds:
  "xs \<noteq> [] \<Longrightarrow> 0 \<le> real (length (filter P xs)) / real (length xs) \<and>
     real (length (filter P xs)) / real (length xs) \<le> 1"
proof -
  assume "xs \<noteq> []"
  then have "0 < real (length xs)" by simp
  moreover have "real (length (filter P xs)) \<le> real (length xs)" by simp
  ultimately show ?thesis by simp
qed

lemma calculate_confidence_eq:
  "calculate_confidence history opt ctx =
     (if similar_decisions history ctx = [] then 7 / 10
      else min 1 ((7 / 10 +
        real (length (filter counts_as_success (similar_decisions history ctx))) /
        real (length (similar_decisions history ctx))) / 2))"
  by (simp add: calculate_confidence_def Let_def)

lemma calculate_confidence_bounds:
  "0 \<le> calculate_confidence history opt ctx \<and> calculate_confidence history opt ctx \<le> 1"
proof (cases "similar_decisions history ctx = []")
  case True
  then show ?thesis by (simp add: calculate_confidence_eq)
next
  case False
  from success_rate_bounds [OF False, of counts_as_success]
  show ?thesis using False by (simp add: calculate_confidence_eq)
qed

lemma make_decision_performance_issue:
  "\<exists>d agent'. make_decision agent [(''performance_issue'', PBool True)] t stamp = Inr (d, agent')"
  by (simp add: make_decision_def Let_def generate_options_def classify_decision_type_def
      has_key_def select_best_option_def calculate_option_score_def impact_score_def
      cost_score_def generate_reasoning_def dict_get_def)

text \<open>
  Claim C6, as the code has it. The confidence of a returned decision is computed from
  the decisions recorded before the call with the same classified type. When there is at
  least one, it is the average of 0.7 and their success rate, clamped to at most 1, where
  a recorded decision with no success flag counts as successful. When there is none, it
  is the base value 0.7 itself: no success rate of 1.0 is assumed, so a first call with an
  empty history yields 0.7.
\<close>

theorem make_decision_confidence:
  "make_decision agent ctx t stamp = Inr (d, agent') \<Longrightarrow>
   confidence d =
     (if similar_decisions (decision_history agent) ctx = [] then 7 / 10
      else min 1 ((7 / 10 +
        real (length (filter counts_as_success (similar_decisions (decision_history agent) ctx))) /
        real (length (similar_decisions (decision_history agent) ctx))) / 2)) \<and>
   similar_decisions (decision_history agent) ctx =
     filter (\<lambda>p. decision_type p = decision_type d) (decision_history agent) \<and>
   (success_flag p = None \<longrightarrow> counts_as_success p) \<and>
   success_flag d = None \<and> counts_as_success d"
proof -
  assume r: "make_decision agent ctx t stamp = Inr (d, agent')"
  from make_decision_returned [OF r] have
    ty: "decision_type d = classify_decision_type ctx" and
    fl: "success_flag d = None" and
    co: "confidence d = calculate_confidence (decision_history agent) (selected_option d) ctx"
    by simp_all
  have "similar_decisions (decision_history agent) ctx =
      filter (\<lambda>p. decision_type p = decision_type d) (decision_history agent)"
    by (simp add: similar_decisions_def ty)
  moreover have "counts_as_success d"
    by (simp add: counts_as_success_def fl)
  moreover have "success_flag p = None \<longrightarrow> counts_as_success p"
    by (simp add: counts_as_success_def)
  ultimately show ?thesis
    using co fl by (simp add: calculate_confidence_eq)
qed

theorem make_decision_confidence_witness:
  "\<exists>d1 a1 d2 a2.
     make_decision \<lparr>decision_history = []\<rparr> [(''performance_issue'', PBool True)] 5 ''now'' =
       Inr (d1, a1) \<and>
     make_decision a1 [(''performance_issue'', PBool True)] 6 ''later'' = Inr (d2, a2) \<and>
     confidence d1 = 7 / 10 \<and> success_flag d1 = None \<and> counts_as_success d1 \<and>
     similar_decisions (decision_history a1) [(''performance_issue'', PBool True)] = [d1] \<and>
     confidence d2 = 17 / 20"
proof -
  let ?ctx = "[(''performance_issue'', PBool True)]"
  let ?a0 = "\<lparr>decision_history = []\<rparr>"
  from make_decision_performance_issue [of ?a0 5 "''now''"] obtain d1 a1 where
    r1: "make_decision ?a0 ?ctx 5 ''now'' = Inr (d1, a1)" by blast
  from make_decision_performance_issue [of a1 6 "''later''"] obtain d2 a2 where
    r2: "make_decision a1 ?ctx 6 ''later'' = Inr (d2, a2)" by blast
  have h1: "decision_history a1 = [d1]" and t1: "decision_type d1 = classify_decision_type ?ctx"
    using make_decision_returned [OF r1] by simp_all
  have t2: "decision_type d2 = classify_decision_type ?ctx"
    using make_decision_returned [OF r2] by simp
  have s1: "counts_as_success d1"
    using make_decision_confidence [OF r1] by simp
  have c1: "confidence d1 = 7 / 10"
    using make_decision_confidence [OF r1] by (simp add: similar_decisions_def)
  have c2: "confidence d2 = 17 / 20"
    using make_decision_confidence [OF r2] h1 t1 s1 by (simp add: similar_decisions_def)
  have f1: "success_flag d1 = None"
    using make_decision_confidence [OF r1] by simp
  have m1: "similar_decisions (decision_history a1) ?ctx = [d1]"
    using h1 t1 by (simp add: similar_decisions_def)
  show ?thesis using r1 r2 c1 c2 f1 s1 m1 by blast
qed

text \<open>
  The claim as the specification states it fails on the first call: with an empty history
  the confidence is 0.7, not (0.7 + 1.0) / 2 = 0.85.
\<close>

theorem make_decision_first_confidence_counterexample:
  "map_sum id (\<lambda>r. confidence (fst r))
     (make_decision \<lparr>decision_history = []\<rparr> [(''performance_issue'', PBool True)] 5 ''now'') =
     Inr (7 / 10) \<and>
   map_sum id (\<lambda>r. confidence (fst r))
     (make_decision \<lparr>decision_history = []\<rparr> [(''performance_issue'', PBool True)] 5 ''now'') \<noteq>
     Inr ((7 / 10 + 1) / 2)"
proof -
  let ?ctx = "[(''performance_issue'', PBool True)]"
  let ?a0 = "\<lparr>decision_history = []\<rparr>"
  from make_decision_performance_issue [of ?a0 5 "''now''"] obtain d1 a1 where
    r1: "make_decision ?a0 ?ctx 5 ''now'' = Inr (d1, a1)" by blast
  have "confidence d1 = calculate_confidence [] (selected_option d1) ?ctx"
    using make_decision_returned [OF r1] by simp
  then have "confidence d1 = 7 / 10"
    by (simp add: calculate_confidence_eq similar_decisions_def)
  then show ?thesis using r1 by simp
qed

text \<open>
  Claim C7. Whatever the context and the decision history, the confidence of a decision
  returned by \<^verbatim>\<open>make_decision\<close> lies in the interval from 0 to 1.
\<close>

theorem make_decision_confidence_in_unit_interval:
  "make_decision agent ctx t stamp = Inr (d, agent') \<Longrightarrow> 0 \<le> confidence d \<and> confidence d \<le> 1"
proof -
  assume r: "make_decision agent ctx t stamp = Inr (d, agent')"
  from make_decision_returned [OF r]
  have "confidence d = calculate_confidence (decision_history agent) (selected_option d) ctx"
    by simp
  then show ?thesis
    using calculate_confidence_bounds [of "decision_history agent" "selected_option d" ctx]
    by simp
qed

theorem make_decision_confidence_in_unit_interval_witness:
  "\<exists>d a. make_decision \<lparr>decision_history = []\<rparr> [(''performance_issue'', PBool True)] 5 ''now'' =
       Inr (d, a) \<and> 0 \<le> confidence d \<and> confidence d \<le> 1"
proof -
  from make_decision_performance_issue [of "\<lparr>decision_history = []\<rparr>" 5 "''now''"] obtain d a where
    r: "make_decision \<lparr>decision_history = []\<rparr> [(''performance_issue'', PBool True)] 5 ''now'' =
      Inr (d, a)" by blast
  from make_decision_confidence_in_unit_interval [OF r] r show ?thesis by blast
qed

section \<open>Properties of the process automator\<close>

lemma template_names:
  "map_of templates name = None \<longleftrightarrow>
     name \<noteq> ''deployment'' \<and> name \<noteq> ''scaling'' \<and> name \<noteq> ''backup''"
  by (simp add: templates_def)

lemma execute_automation_unknown:
  "map_of templates name = None \<Longrightarrow>
   execute_automation_with exec fr t (PStr name) params =
     Inl (ValueError (''Unknown process type: '' @ name))"
  by (simp add: execute_automation_with_def get_process_template_def py_str_def)

lemma run_steps_all_succeed:
  "list_all (\<lambda>s. result_success (exec s params)) steps \<Longrightarrow>
   run_steps exec params pid n steps gathered =
     Inr \<lparr>process_id = pid, success = True, error = None,
          results = Some (gathered @ map (\<lambda>s. exec s params) steps),
          completed_steps = length gathered + length steps, total_steps = n\<rparr>"
  by (induction steps arbitrary: gathered) (simp_all add: Let_def)

lemma run_steps_first_failure:
  "list_all (\<lambda>s. result_success (exec s params)) pre \<Longrightarrow>
   \<not> result_success (exec s params) \<Longrightarrow> result_error (exec s params) = Some e \<Longrightarrow>
   run_steps exec params pid n (pre @ s # post) gathered =
     Inr \<lparr>process_id = pid, success = False, error = Some e, results = None,
          completed_steps = length gathered + length pre + 1, total_steps = n\<rparr>"
  by (induction pre arbitrary: gathered) (simp_all add: Let_def)

lemma execute_automation_all_succeed:
  "map_of templates name = Some steps \<Longrightarrow>
   list_all (\<lambda>s. result_success (exec s params)) steps \<Longrightarrow>
   execute_automation_with exec fr t (PStr name) params =
     Inr \<lparr>process_id = ''automation_'' @ str_int t, success = True, error = None,
          results = Some (map (\<lambda>s. exec s params) steps),
          completed_steps = length steps, total_steps = length steps\<rparr>"
  by (simp add: execute_automation_with_def get_process_template_def run_steps_all_succeed)

lemma execute_automation_first_failure:
  "map_of templates name = Some (pre @ s # post) \<Longrightarrow>
   list_all (\<lambda>s. result_success (exec s params)) pre \<Longrightarrow>
   \<not> result_success (exec s params) \<Longrightarrow> result_error (exec s params) = Some e \<Longrightarrow>
   execute_automation_with exec fr t (PStr name) params =
     Inr \<lparr>process_id = ''automation_'' @ str_int t, success = False, error = Some e,
          results = None, completed_steps = length pre + 1,
          total_steps = length (pre @ s # post)\<rparr>"
  by (simp add: execute_automation_with_def get_process_template_def run_steps_first_failure)

lemma backup_template:
  "map_of templates ''backup'' =
     Some ([\<lparr>step_action = ''prepare_backup'', step_timeout = 30\<rparr>] @
           \<lparr>step_action = ''create_backup'', step_timeout = 600\<rparr> #
           [\<lparr>step_action = ''verify_backup'', step_timeout = 60\<rparr>,
            \<lparr>step_action = ''cleanup_old_backups'', step_timeout = 120\<rparr>])"
  by (simp add: templates_def)

text \<open>
  Claim C4. For a registered template, \<^verbatim>\<open>execute_automation\<close> hands the steps to the
  step executor in their order. When every step result reports success, it returns
  success with the results of all steps in order, and completed_steps and total_steps both
  equal to the number of steps. When the results of the steps before some step report
  success and that step's result reports failure with an error, it returns failure with
  that error, completed_steps equal to the number of results gathered so far (the failing
  one included) and total_steps equal to the number of steps, whatever the executor would
  do on the steps behind. With a step executor that fails on create_backup and on no other
  step, the backup template yields failure with completed_steps 2 and total_steps 4.
\<close>

theorem execute_automation_sequential_fail_fast:
  "(map_of templates name = Some steps \<and>
    list_all (\<lambda>s. result_success (exec s params)) steps \<longrightarrow>
      execute_automation_with exec fr t (PStr name) params =
        Inr \<lparr>process_id = ''automation_'' @ str_int t, success = True, error = None,
             results = Some (map (\<lambda>s. exec s params) steps),
             completed_steps = length steps, total_steps = length steps\<rparr>) \<and>
   (map_of templates name = Some (pre @ s # post) \<and>
    list_all (\<lambda>s. result_success (exec s params)) pre \<and>
    \<not> result_success (exec s params) \<and> result_error (exec s params) = Some e \<longrightarrow>
      execute_automation_with exec fr t (PStr name) params =
        Inr \<lparr>process_id = ''automation_'' @ str_int t, success = False, error = Some e,
             results = None, completed_steps = length pre + 1,
             total_steps = length (pre @ s # post)\<rparr>) \<and>
   ((\<forall>s. result_success (exec s params) = (step_action s \<noteq> ''create_backup'')) \<and>
    result_error (exec \<lparr>step_action = ''create_backup'', step_timeout = 600\<rparr> params) = Some e \<longrightarrow>
      execute_automation_with exec fr t (PStr ''backup'') params =
        Inr \<lparr>process_id = ''automation_'' @ str_int t, success = False, error = Some e,
             results = None, completed_steps = 2, total_steps = 4\<rparr>)"
proof (intro conjI impI)
  assume "map_of templates name = Some steps \<and>
    list_all (\<lambda>s. result_success (exec s params)) steps"
  then show "execute_automation_with exec fr t (PStr name) params =
        Inr \<lparr>process_id = ''automation_'' @ str_int t, success = True, error = None,
             results = Some (map (\<lambda>s. exec s params) steps),
             completed_steps = length steps, total_steps = length steps\<rparr>"
    by (simp add: execute_automation_all_succeed)
next
  assume "map_of templates name = Some (pre @ s # post) \<and>
    list_all (\<lambda>s. result_success (exec s params)) pre \<and>
    \<not> result_success (exec s params) \<and> result_error (exec s params) = Some e"
  then show "execute_automation_with exec fr t (PStr name) params =
        Inr \<lparr>process_id = ''automation_'' @ str_int t, success = False, error = Some e,
             results = None, completed_steps = length pre + 1,
             total_steps = length (pre @ s # post)\<rparr>"
    using execute_automation_first_failure [of name pre s post exec params e fr t] by blast
next
  assume a: "(\<forall>s. result_success (exec s params) = (step_action s \<noteq> ''create_backup'')) \<and>
    result_error (exec \<lparr>step_action = ''create_backup'', step_timeout = 600\<rparr> params) = Some e"
  have "execute_automation_with exec fr t (PStr ''backup'') params =
        Inr \<lparr>process_id = ''automation_'' @ str_int t, success = False, error = Some e,
             results = None,
             completed_steps = length [\<lparr>step_action = ''prepare_backup'', step_timeout = 30\<rparr>] + 1,
             total_steps = length ([\<lparr>step_action = ''prepare_backup'', step_timeout = 30\<rparr>] @
               \<lparr>step_action = ''create_backup'', step_timeout = 600\<rparr> #
               [\<lparr>step_action = ''verify_backup'', step_timeout = 60\<rparr>,
                \<lparr>step_action = ''cleanup_old_backups'', step_timeout = 120\<rparr>])\<rparr>"
    by (rule execute_automation_first_failure [OF backup_template]) (simp_all add: a)
  then show "execute_automation_with exec fr t (PStr ''backup'') params =
        Inr \<lparr>process_id = ''automation_'' @ str_int t, success = False, error = Some e,
             results = None, completed_steps = 2, total_steps = 4\<rparr>"
    by simp
qed

theorem execute_automation_sequential_fail_fast_witness:
  "execute_automation_with
     (\<lambda>s p. if step_action s = ''create_backup''
        then \<lparr>result_action = step_action s, result_success = False, result_duration = 0,
              result_text = None, result_error = Some ''disk full''\<rparr>
        else execute_step s p)
     (\<lambda>r. []) 7 (PStr ''backup'') [] =
     Inr \<lparr>process_id = ''automation_7'', success = False, error = Some ''disk full'',
          results = None, completed_steps = 2, total_steps = 4\<rparr> \<and>
   (\<exists>rs. execute_automation (\<lambda>r. []) 7 (PStr ''backup'') [] =
     Inr \<lparr>process_id = ''automation_7'', success = True, error = None,
          results = Some rs, completed_steps = 4, total_steps = 4\<rparr>)"
proof -
  let ?exec = "\<lambda>s p. if step_action s = ''create_backup''
        then \<lparr>result_action = step_action s, result_success = False, result_duration = 0,
              result_text = None, result_error = Some ''disk full''\<rparr>
        else execute_step s p"
  let ?steps = "[\<lparr>step_action = ''prepare_backup'', step_timeout = 30\<rparr>,
    \<lparr>step_action = ''create_backup'', step_timeout = 600\<rparr>,
    \<lparr>step_action = ''verify_backup'', step_timeout = 60\<rparr>,
    \<lparr>step_action = ''cleanup_old_backups'', step_timeout = 120\<rparr>]"
  have s7: "str_int 7 = ''7''"
    by (simp add: str_int_def str_nat.simps)
  have pid: "''automation_'' @ str_int 7 = ''automation_7''"
    by (simp add: s7)
  have h1: "\<forall>s. result_success (?exec s []) = (step_action s \<noteq> ''create_backup'')"
    by (simp add: execute_step_def)
  have h2: "result_error (?exec \<lparr>step_action = ''create_backup'', step_timeout = 600\<rparr> []) =
      Some ''disk full''"
    by simp
  have "execute_automation_with ?exec (\<lambda>r. []) 7 (PStr ''backup'') [] =
      Inr \<lparr>process_id = ''automation_'' @ str_int 7, success = False, error = Some ''disk full'',
           results = None, completed_steps = 2, total_steps = 4\<rparr>"
    using execute_automation_sequential_fail_fast
      [where exec = ?exec and params = "[]" and e = "''disk full''" and t = 7 and fr = "\<lambda>r. []",
        THEN conjunct2, THEN conjunct2] h1 h2
    by blast
  then have failing: "execute_automation_with ?exec (\<lambda>r. []) 7 (PStr ''backup'') [] =
      Inr \<lparr>process_id = ''automation_7'', success = False, error = Some ''disk full'',
           results = None, completed_steps = 2, total_steps = 4\<rparr>"
    by (simp only: pid)
  have t: "map_of templates ''backup'' = Some ?steps"
    by (simp add: templates_def)
  have ok: "list_all (\<lambda>s. result_success (execute_step s [])) ?steps"
    by (simp add: execute_step_def)
  have "execute_automation_with execute_step (\<lambda>r. []) 7 (PStr ''backup'') [] =
      Inr \<lparr>process_id = ''automation_'' @ str_int 7, success = True, error = None,
           results = Some (map (\<lambda>s. execute_step s []) ?steps),
           completed_steps = length ?steps, total_steps = length ?steps\<rparr>"
    using execute_automation_sequential_fail_fast
      [where exec = execute_step and params = "[]" and name = "''backup''" and steps = ?steps
        and t = 7 and fr = "\<lambda>r. []", THEN conjunct1] t ok
    by blast
  then have "execute_automation (\<lambda>r. []) 7 (PStr ''backup'') [] =
      Inr \<lparr>process_id = ''automation_7'', success = True, error = None,
           results = Some (map (\<lambda>s. execute_step s []) ?steps),
           completed_steps = 4, total_steps = 4\<rparr>"
    by (simp add: s7 execute_automation_def)
  then have "\<exists>rs. execute_automation (\<lambda>r. []) 7 (PStr ''backup'') [] =
      Inr \<lparr>process_id = ''automation_7'', success = True, error = None,
           results = Some rs, completed_steps = 4, total_steps = 4\<rparr>"
    by blast
  with failing show ?thesis by blast
qed

lemma execute_task_automation_raises:
  "agent_type task = PROCESS_AUTOMATOR \<Longrightarrow>
   execute_automation fr (agent_time ck) (dict_get (parameters task) ''process_type'' PNone)
     (parameters task) = Inl e \<Longrightarrow>
   execute_task fr orch task ck =
     (task\<lparr>status := ''failed'', started_at := Some (started_now ck),
           error_message := Some (str_error e), completed_at := Some (completed_now ck)\<rparr>, orch)"
  by (simp add: execute_task_def dispatch_task_def)

text \<open>
  Claim C3, as the code has it. For a process type string that is none of deployment,
  scaling and backup, \<^verbatim>\<open>execute_automation\<close> returns no outcome at all: it raises
  \<^verbatim>\<open>ValueError\<close> with the message \<^verbatim>\<open>Unknown process type: \<close> followed by the process
  type. The call enqueues nothing and changes nothing of the orchestrator: the REST handler
  leaves it as it was, and so does the execution of a task sent to the process automator
  with such a process type, whose handler then marks that one task failed with the
  message of the exception.
\<close>

theorem execute_automation_unknown_type_raises:
  "name \<noteq> ''deployment'' \<and> name \<noteq> ''scaling'' \<and> name \<noteq> ''backup'' \<longrightarrow>
     execute_automation fr t (PStr name) params =
       Inl (ValueError (''Unknown process type: '' @ name)) \<and>
     rest_execute_automation fr orch name params t =
       (Inl (ValueError (''Unknown process type: '' @ name)), orch) \<and>
     (agent_type task = PROCESS_AUTOMATOR \<and>
      map_of (parameters task) ''process_type'' = Some (PStr name) \<longrightarrow>
        execute_task fr orch task ck =
          (task\<lparr>status := ''failed'', started_at := Some (started_now ck),
                error_message := Some (''Unknown process type: '' @ name),
                completed_at := Some (completed_now ck)\<rparr>, orch))"
proof (intro impI)
  assume "name \<noteq> ''deployment'' \<and> name \<noteq> ''scaling'' \<and> name \<noteq> ''backup''"
  then have none: "map_of templates name = None"
    by (simp add: template_names)
  have raises: "execute_automation fr' t' (PStr name) params' =
      Inl (ValueError (''Unknown process type: '' @ name))" for fr' t' params'
    using none by (simp add: execute_automation_def execute_automation_unknown)
  have rest: "rest_execute_automation fr orch name params t =
      (Inl (ValueError (''Unknown process type: '' @ name)), orch)"
    by (simp add: rest_execute_automation_def raises)
  have task: "execute_task fr orch task ck =
      (task\<lparr>status := ''failed'', started_at := Some (started_now ck),
            error_message := Some (''Unknown process type: '' @ name),
            completed_at := Some (completed_now ck)\<rparr>, orch)"
    if "agent_type task = PROCESS_AUTOMATOR \<and>
      map_of (parameters task) ''process_type'' = Some (PStr name)"
  proof -
    have "execute_automation fr (agent_time ck)
        (dict_get (parameters task) ''process_type'' PNone) (parameters task) =
        Inl (ValueError (''Unknown process type: '' @ name))"
      using that by (simp add: dict_get_def raises)
    from execute_task_automation_raises [OF _ this, of orch] that
    show ?thesis by simp
  qed
  show "execute_automation fr t (PStr name) params =
       Inl (ValueError (''Unknown process type: '' @ name)) \<and>
     rest_execute_automation fr orch name params t =
       (Inl (ValueError (''Unknown process type: '' @ name)), orch) \<and>
     (agent_type task = PROCESS_AUTOMATOR \<and>
      map_of (parameters task) ''process_type'' = Some (PStr name) \<longrightarrow>
        execute_task fr orch task ck =
          (task\<lparr>status := ''failed'', started_at := Some (started_now ck),
                error_message := Some (''Unknown process type: '' @ name),
                completed_at := Some (completed_now ck)\<rparr>, orch))"
    using raises rest task by blast
qed

theorem execute_automation_unknown_type_raises_witness:
  "''restart'' \<noteq> ''deployment'' \<and> ''restart'' \<noteq> ''scaling'' \<and> ''restart'' \<noteq> ''backup'' \<and>
   execute_automation (\<lambda>r. []) 7 (PStr ''restart'') [] =
     Inl (ValueError ''Unknown process type: restart'') \<and>
   rest_execute_automation (\<lambda>r. []) (init_orchestrator 0) ''restart'' [] 7 =
     (Inl (ValueError ''Unknown process type: restart''), init_orchestrator 0) \<and>
   agent_type (new_task ''t'' PROCESS_AUTOMATOR HIGH ''run''
       [(''process_type'', PStr ''restart'')] 0) = PROCESS_AUTOMATOR \<and>
   map_of (parameters (new_task ''t'' PROCESS_AUTOMATOR HIGH ''run''
       [(''process_type'', PStr ''restart'')] 0)) ''process_type'' = Some (PStr ''restart'') \<and>
   snd (execute_task (\<lambda>r. []) (init_orchestrator 0)
       (new_task ''t'' PROCESS_AUTOMATOR HIGH ''run'' [(''process_type'', PStr ''restart'')] 0)
       \<lparr>started_now = 1, agent_time = 7, agent_time_later = 8, agent_stamp = ''now'',
        completed_now = 2\<rparr>) = init_orchestrator 0 \<and>
   status (fst (execute_task (\<lambda>r. []) (init_orchestrator 0)
       (new_task ''t'' PROCESS_AUTOMATOR HIGH ''run'' [(''process_type'', PStr ''restart'')] 0)
       \<lparr>started_now = 1, agent_time = 7, agent_time_later = 8, agent_stamp = ''now'',
        completed_now = 2\<rparr>)) = ''failed'' \<and>
   error_message (fst (execute_task (\<lambda>r. []) (init_orchestrator 0)
       (new_task ''t'' PROCESS_AUTOMATOR HIGH ''run'' [(''process_type'', PStr ''restart'')] 0)
       \<lparr>started_now = 1, agent_time = 7, agent_time_later = 8, agent_stamp = ''now'',
        completed_now = 2\<rparr>)) = Some ''Unknown process type: restart''"
proof -
  let ?task = "new_task ''t'' PROCESS_AUTOMATOR HIGH ''run'' [(''process_type'', PStr ''restart'')] 0"
  let ?ck = "\<lparr>started_now = 1, agent_time = 7, agent_time_later = 8, agent_stamp = ''now'',
        completed_now = 2\<rparr>"
  have n: "''restart'' \<noteq> ''deployment'' \<and> ''restart'' \<noteq> ''scaling'' \<and> ''restart'' \<noteq> ''backup''"
    by simp
  have a: "agent_type ?task = PROCESS_AUTOMATOR \<and>
      map_of (parameters ?task) ''process_type'' = Some (PStr ''restart'')"
    by (simp add: new_task_def)
  note all = execute_automation_unknown_type_raises
    [where name = "''restart''" and fr = "\<lambda>r. []" and t = 7 and params = "[]"
      and orch = "init_orchestrator 0" and task = ?task and ck = ?ck, rule_format, OF n]
  have e: "execute_task (\<lambda>r. []) (init_orchestrator 0) ?task ?ck =
      (?task\<lparr>status := ''failed'', started_at := Some (started_now ?ck),
            error_message := Some (''Unknown process type: '' @ ''restart''),
            completed_at := Some (completed_now ?ck)\<rparr>, init_orchestrator 0)"
    using all a by blast
  have r: "execute_automation (\<lambda>r. []) 7 (PStr ''restart'') [] =
     Inl (ValueError ''Unknown process type: restart'')"
    using all by simp
  have h: "rest_execute_automation (\<lambda>r. []) (init_orchestrator 0) ''restart'' [] 7 =
     (Inl (ValueError ''Unknown process type: restart''), init_orchestrator 0)"
    using all by simp
  have s1: "snd (execute_task (\<lambda>r. []) (init_orchestrator 0) ?task ?ck) = init_orchestrator 0"
    unfolding e by simp
  have s2: "status (fst (execute_task (\<lambda>r. []) (init_orchestrator 0) ?task ?ck)) = ''failed''"
    unfolding e by simp
  have s3: "error_message (fst (execute_task (\<lambda>r. []) (init_orchestrator 0) ?task ?ck)) =
      Some ''Unknown process type: restart''"
    unfolding e by simp
  show ?thesis
    using n a r h s1 s2 s3 by simp
qed

text \<open>
  The claim as the specification states it fails: for the unregistered process type
  restart no outcome with success false is returned, the call raises.
\<close>

theorem execute_automation_unknown_type_counterexample:
  "execute_automation (\<lambda>r. []) 7 (PStr ''restart'') [] =
     Inl (ValueError ''Unknown process type: restart'')"
  by (simp add: execute_automation_def execute_automation_with_def get_process_template_def
      templates_def py_str_def)

section \<open>Properties of the self healer\<close>

lemma sublist_join: "x \<in> set xs \<Longrightarrow> sublist x (join sep xs)"
proof (induction sep xs rule: join.induct)
  case (1 sep)
  then show ?case by simp
next
  case (2 sep y)
  then show ?case by simp
next
  case (3 sep a b ys)
  show ?case
  proof (cases "x = a")
    case True
    then show ?thesis by simp
  next
    case False
    with 3 have "sublist x (join sep (b # ys))" by simp
    then obtain p s where "join sep (b # ys) = p @ x @ s"
      by (auto simp: sublist_def)
    then have "join sep (a # b # ys) = (a @ sep @ p) @ x @ s" by simp
    then show ?thesis unfolding sublist_def by blast
  qed
qed

lemma repr_char_out_of_memory:
  "q = CHR 0x27 \<or> q = CHR 0x22 \<Longrightarrow>
   concat (map (repr_char q) ''out_of_memory'') = ''out_of_memory''"
  by (auto simp: repr_char_def)

lemma sublist_repr_str:
  "sublist ''out_of_memory'' s \<Longrightarrow> sublist ''out_of_memory'' (repr_str s)"
proof -
  assume "sublist ''out_of_memory'' s"
  then obtain a b where s: "s = a @ ''out_of_memory'' @ b"
    by (auto simp: sublist_def)
  define q where "q = (if CHR 0x27 \<in> set s \<and> CHR 0x22 \<notin> set s then CHR 0x22 else CHR 0x27)"
  have qq: "q = CHR 0x27 \<or> q = CHR 0x22"
    by (simp add: q_def)
  have "repr_str s = q # concat (map (repr_char q) s) @ [q]"
    by (simp add: repr_str_def q_def Let_def)
  also have "concat (map (repr_char q) s) =
     concat (map (repr_char q) a) @ concat (map (repr_char q) ''out_of_memory'') @
     concat (map (repr_char q) b)"
    by (simp only: s map_append concat_append)
  also have "concat (map (repr_char q) ''out_of_memory'') = ''out_of_memory''"
    using qq by (rule repr_char_out_of_memory)
  finally have "repr_str s = (q # concat (map (repr_char q) a)) @ ''out_of_memory'' @
     (concat (map (repr_char q) b) @ [q])"
    by simp
  then show ?thesis unfolding sublist_def by blast
qed

lemma sublist_str_of_list:
  "PStr s \<in> set xs \<Longrightarrow> sublist ''out_of_memory'' s \<Longrightarrow>
   sublist ''out_of_memory'' (py_str fr (PList xs))"
proof -
  assume m: "PStr s \<in> set xs" and sub: "sublist ''out_of_memory'' s"
  have "repr_str s \<in> set (map (py_repr fr) xs)"
    using m by (force simp: image_iff)
  then have "sublist (repr_str s) (join '', '' (map (py_repr fr) xs))"
    by (rule sublist_join)
  then obtain p1 r1 where j: "join '', '' (map (py_repr fr) xs) = p1 @ repr_str s @ r1"
    by (auto simp: sublist_def)
  from sublist_repr_str [OF sub] obtain p2 r2 where "repr_str s = p2 @ ''out_of_memory'' @ r2"
    by (auto simp: sublist_def)
  with j have "join '', '' (map (py_repr fr) xs) = (p1 @ p2) @ ''out_of_memory'' @ (r2 @ r1)"
    by simp
  then obtain p r where "join '', '' (map (py_repr fr) xs) = p @ ''out_of_memory'' @ r"
    by blast
  then have "py_str fr (PList xs) = (''['' @ p) @ ''out_of_memory'' @ (r @ '']'')"
    by (simp add: py_str_def)
  then show ?thesis unfolding sublist_def by blast
qed

lemma diagnose_out_of_memory:
  "sublist ''out_of_memory'' (symptoms_text fr issue) \<Longrightarrow>
   \<not> sublist ''connection_refused'' (symptoms_text fr issue) \<Longrightarrow>
   diagnose_issue fr issue =
     \<lparr>issue_type = ''resource_exhaustion'', severity = ''critical'',
      root_cause = ''Insufficient memory resources'', diagnosis_confidence = 95 / 100\<rparr>"
  by (simp add: diagnose_issue_def)

lemma diagnose_connection_refused:
  "sublist ''connection_refused'' (symptoms_text fr issue) \<Longrightarrow>
   diagnose_issue fr issue =
     \<lparr>issue_type = ''service_unavailable'', severity = ''high'',
      root_cause = ''Service is not running or not accessible'', diagnosis_confidence = 9 / 10\<rparr>"
  by (simp add: diagnose_issue_def)

lemma report_diagnosis_eq:
  "report_diagnosis (diagnose_and_heal fr issue t_plan t_exec stamp) = diagnose_issue fr issue"
  by (simp add: diagnose_and_heal_def Let_def)

text \<open>
  Claim C8, as the code has it. The patterns are looked for in the text of the symptoms
  in a fixed order, connection_refused first. For every issue whose symptom text contains
  out_of_memory and does not contain connection_refused, \<^verbatim>\<open>diagnose_and_heal\<close> diagnoses
  resource_exhaustion with severity critical and confidence 0.95; that is the case of a
  list of symptoms one of which is a string containing out_of_memory, as long as the text
  does not contain connection_refused. When the text contains connection_refused, the
  diagnosis is service_unavailable with severity high and confidence 0.9, whether or not
  out_of_memory is there too.
\<close>

theorem diagnose_out_of_memory_without_connection_refused:
  "(sublist ''out_of_memory'' (symptoms_text fr issue) \<and>
    \<not> sublist ''connection_refused'' (symptoms_text fr issue) \<longrightarrow>
      report_diagnosis (diagnose_and_heal fr issue t_plan t_exec stamp) =
        \<lparr>issue_type = ''resource_exhaustion'', severity = ''critical'',
         root_cause = ''Insufficient memory resources'', diagnosis_confidence = 95 / 100\<rparr>) \<and>
   (map_of issue ''symptoms'' = Some (PList xs) \<and> PStr s \<in> set xs \<and>
    sublist ''out_of_memory'' s \<and>
    \<not> sublist ''connection_refused'' (symptoms_text fr issue) \<longrightarrow>
      report_diagnosis (diagnose_and_heal fr issue t_plan t_exec stamp) =
        \<lparr>issue_type = ''resource_exhaustion'', severity = ''critical'',
         root_cause = ''Insufficient memory resources'', diagnosis_confidence = 95 / 100\<rparr>) \<and>
   (sublist ''connection_refused'' (symptoms_text fr issue) \<longrightarrow>
      report_diagnosis (diagnose_and_heal fr issue t_plan t_exec stamp) =
        \<lparr>issue_type = ''service_unavailable'', severity = ''high'',
         root_cause = ''Service is not running or not accessible'',
         diagnosis_confidence = 9 / 10\<rparr>)"
proof (intro conjI impI)
  assume "sublist ''out_of_memory'' (symptoms_text fr issue) \<and>
    \<not> sublist ''connection_refused'' (symptoms_text fr issue)"
  then show "report_diagnosis (diagnose_and_heal fr issue t_plan t_exec stamp) =
        \<lparr>issue_type = ''resource_exhaustion'', severity = ''critical'',
         root_cause = ''Insufficient memory resources'', diagnosis_confidence = 95 / 100\<rparr>"
    by (simp add: report_diagnosis_eq diagnose_out_of_memory)
next
  assume a: "map_of issue ''symptoms'' = Some (PList xs) \<and> PStr s \<in> set xs \<and>
    sublist ''out_of_memory'' s \<and>
    \<not> sublist ''connection_refused'' (symptoms_text fr issue)"
  then have "symptoms_text fr issue = py_str fr (PList xs)"
    by (simp add: symptoms_text_def dict_get_def)
  moreover have "sublist ''out_of_memory'' (py_str fr (PList xs))"
    using a by (blast intro: sublist_str_of_list)
  ultimately have "sublist ''out_of_memory'' (symptoms_text fr issue)"
    by simp
  with a show "report_diagnosis (diagnose_and_heal fr issue t_plan t_exec stamp) =
        \<lparr>issue_type = ''resource_exhaustion'', severity = ''critical'',
         root_cause = ''Insufficient memory resources'', diagnosis_confidence = 95 / 100\<rparr>"
    by (simp add: report_diagnosis_eq diagnose_out_of_memory)
next
  assume "sublist ''connection_refused'' (symptoms_text fr issue)"
  then show "report_diagnosis (diagnose_and_heal fr issue t_plan t_exec stamp) =
        \<lparr>issue_type = ''service_unavailable'', severity = ''high'',
         root_cause = ''Service is not running or not accessible'',
         diagnosis_confidence = 9 / 10\<rparr>"
    by (simp add: report_diagnosis_eq diagnose_connection_refused)
qed

lemma symptoms_text_memory_only:
  "symptoms_text (\<lambda>r. []) [(''symptoms'', PList [PStr ''out_of_memory'', PStr ''slow''])] =
     [CHR ''[''] @ quoted ''out_of_memory'' @ '', '' @ quoted ''slow'' @ [CHR '']'']"
  by (simp add: symptoms_text_def dict_get_def py_str_def repr_str_def repr_char_def quoted_def Let_def)

lemma symptoms_text_both:
  "symptoms_text (\<lambda>r. [])
     [(''symptoms'', PList [PStr ''connection_refused'', PStr ''out_of_memory''])] =
     [CHR ''[''] @ quoted ''connection_refused'' @ '', '' @ quoted ''out_of_memory'' @ [CHR '']'']"
  by (simp add: symptoms_text_def dict_get_def py_str_def repr_str_def repr_char_def quoted_def Let_def)

theorem diagnose_out_of_memory_without_connection_refused_witness:
  "sublist ''out_of_memory''
     (symptoms_text (\<lambda>r. []) [(''symptoms'', PList [PStr ''out_of_memory'', PStr ''slow''])]) \<and>
   \<not> sublist ''connection_refused''
     (symptoms_text (\<lambda>r. []) [(''symptoms'', PList [PStr ''out_of_memory'', PStr ''slow''])]) \<and>
   report_diagnosis (diagnose_and_heal (\<lambda>r. [])
       [(''symptoms'', PList [PStr ''out_of_memory'', PStr ''slow''])] 7 8 ''now'') =
     \<lparr>issue_type = ''resource_exhaustion'', severity = ''critical'',
      root_cause = ''Insufficient memory resources'', diagnosis_confidence = 95 / 100\<rparr> \<and>
   sublist ''connection_refused''
     (symptoms_text (\<lambda>r. [])
        [(''symptoms'', PList [PStr ''connection_refused'', PStr ''out_of_memory''])]) \<and>
   report_diagnosis (diagnose_and_heal (\<lambda>r. [])
       [(''symptoms'', PList [PStr ''connection_refused'', PStr ''out_of_memory''])] 7 8 ''now'') =
     \<lparr>issue_type = ''service_unavailable'', severity = ''high'',
      root_cause = ''Service is not running or not accessible'', diagnosis_confidence = 9 / 10\<rparr>"
proof -
  let ?mem = "[(''symptoms'', PList [PStr ''out_of_memory'', PStr ''slow''])]"
  let ?both = "[(''symptoms'', PList [PStr ''connection_refused'', PStr ''out_of_memory''])]"
  have m: "sublist ''out_of_memory'' (symptoms_text (\<lambda>r. []) ?mem)"
    unfolding symptoms_text_memory_only by code_simp
  have n: "\<not> sublist ''connection_refused'' (symptoms_text (\<lambda>r. []) ?mem)"
    unfolding symptoms_text_memory_only by code_simp
  have c: "sublist ''connection_refused'' (symptoms_text (\<lambda>r. []) ?both)"
    unfolding symptoms_text_both by code_simp
  note mem = diagnose_out_of_memory_without_connection_refused
    [where fr = "\<lambda>r. []" and issue = ?mem and t_plan = 7 and t_exec = 8 and stamp = "''now''",
      THEN conjunct1, rule_format]
  note both = diagnose_out_of_memory_without_connection_refused
    [where fr = "\<lambda>r. []" and issue = ?both and t_plan = 7 and t_exec = 8 and stamp = "''now''",
      THEN conjunct2, THEN conjunct2, rule_format]
  show ?thesis
    using m n c mem [OF conjI [OF m n]] both [OF c] by blast
qed

text \<open>
  The claim as the specification states it fails when connection_refused is among the
  symptoms: out_of_memory is in the symptom text, and the diagnosis is service_unavailable.
\<close>

theorem diagnose_out_of_memory_counterexample:
  "sublist ''out_of_memory''
     (symptoms_text (\<lambda>r. [])
        [(''symptoms'', PList [PStr ''connection_refused'', PStr ''out_of_memory''])]) \<and>
   report_diagnosis (diagnose_and_heal (\<lambda>r. [])
       [(''symptoms'', PList [PStr ''connection_refused'', PStr ''out_of_memory''])] 7 8 ''now'') =
     \<lparr>issue_type = ''service_unavailable'', severity = ''high'',
      root_cause = ''Service is not running or not accessible'', diagnosis_confidence = 9 / 10\<rparr>"
proof -
  let ?both = "[(''symptoms'', PList [PStr ''connection_refused'', PStr ''out_of_memory''])]"
  have o: "sublist ''out_of_memory'' (symptoms_text (\<lambda>r. []) ?both)"
    unfolding symptoms_text_both by code_simp
  have c: "sublist ''connection_refused'' (symptoms_text (\<lambda>r. []) ?both)"
    unfolding symptoms_text_both by code_simp
  from c have "diagnose_issue (\<lambda>r. []) ?both =
     \<lparr>issue_type = ''service_unavailable'', severity = ''high'',
      root_cause = ''Service is not running or not accessible'', diagnosis_confidence = 9 / 10\<rparr>"
    by (rule diagnose_connection_refused)
  with o show ?thesis
    by (simp add: report_diagnosis_eq)
qed

section \<open>Properties of the orchestrator\<close>

subsection \<open>The state refresh\<close>

lemma update_system_state_ranges:
  "95 / 100 \<le> health_score (system_state (update_system_state orch now h1 h2)) \<and>
   health_score (system_state (update_system_state orch now h1 h2)) \<le> 104 / 100 \<and>
   3 / 10 \<le> system_load (system_state (update_system_state orch now h1 h2)) \<and>
   system_load (system_state (update_system_state orch now h1 h2)) \<le> 99 / 100"
proof -
  have a: "0 \<le> h1 mod 10" and b: "h1 mod 10 \<le> 9" and c: "0 \<le> h2 mod 70" and d: "h2 mod 70 \<le> 69"
    by simp_all
  have "0 \<le> real_of_int (h1 mod 10)" and "real_of_int (h1 mod 10) \<le> 9"
    and "0 \<le> real_of_int (h2 mod 70)" and "real_of_int (h2 mod 70) \<le> 69"
    using a b c d by linarith+
  then show ?thesis
    by (simp add: update_system_state_def)
qed

text \<open>
  Claim C2 asks that after every refresh the health score and the system load lie between
  0 and 1. The system load does: it is 0.3 plus at most 0.69. The health score does not:
  it is 0.95 plus a hundredth of the hash modulo 10, so a hash with remainder 9 gives
  1.04, above the value 1.0 the orchestrator starts from.
\<close>

theorem update_system_state_health_above_one:
  "health_score (system_state (update_system_state (init_orchestrator 0) 1 9 0)) = 104 / 100 \<and>
   \<not> health_score (system_state (update_system_state (init_orchestrator 0) 1 9 0)) \<le> 1 \<and>
   0 \<le> system_load (system_state (update_system_state (init_orchestrator 0) 1 9 0)) \<and>
   system_load (system_state (update_system_state (init_orchestrator 0) 1 9 0)) \<le> 1"
  by (simp add: update_system_state_def init_orchestrator_def)

subsection \<open>Tasks of an agent type with no agent\<close>

lemma execute_task_no_agent:
  "agent_type task = SYSTEM_MONITOR \<or> agent_type task = OPTIMIZER \<Longrightarrow>
   execute_task fr orch task ck =
     (task\<lparr>status := ''completed'', started_at := Some (started_now ck),
           result := Some (ErrorPayload (''Unknown agent type: '' @ agent_type_str (agent_type task))),
           completed_at := Some (completed_now ck)\<rparr>, orch)"
  by (auto simp: execute_task_def dispatch_task_def)

text \<open>
  Claim C10. A task whose agent type is system_monitor or optimizer has no matching agent.
  Its execution marks it completed, not failed, with a completion timestamp and no error
  message on the task, and its result payload is the one-key dictionary whose error
  message names the agent type. This holds for the task as the processing loop dequeues
  it, and the optimization tasks the monitoring loop creates are such tasks: agent type
  optimizer, priority Medium.
\<close>

theorem execute_task_unknown_agent_type_completed:
  "(agent_type task = SYSTEM_MONITOR \<or> agent_type task = OPTIMIZER \<longrightarrow>
      execute_task fr orch task ck =
        (task\<lparr>status := ''completed'', started_at := Some (started_now ck),
              result := Some (ErrorPayload
                (''Unknown agent type: '' @ agent_type_str (agent_type task))),
              completed_at := Some (completed_now ck)\<rparr>, orch)) \<and>
   (dequeue_next (task_queue orch) = Some (task, rest) \<and>
    (agent_type task = SYSTEM_MONITOR \<or> agent_type task = OPTIMIZER) \<longrightarrow>
      task_processing_iteration fr orch ck =
        (Some (task\<lparr>status := ''completed'', started_at := Some (started_now ck),
                    result := Some (ErrorPayload
                      (''Unknown agent type: '' @ agent_type_str (agent_type task))),
                    completed_at := Some (completed_now ck)\<rparr>),
         orch\<lparr>task_queue := rest\<rparr>)) \<and>
   agent_type (optimization_task fr mc optimization) = OPTIMIZER \<and>
   priority (optimization_task fr mc optimization) = MEDIUM \<and>
   fst (execute_task fr orch (optimization_task fr mc optimization) ck) =
     (optimization_task fr mc optimization)
       \<lparr>status := ''completed'', started_at := Some (started_now ck),
        result := Some (ErrorPayload ''Unknown agent type: AgentType.OPTIMIZER''),
        completed_at := Some (completed_now ck)\<rparr>"
proof (intro conjI impI)
  assume "agent_type task = SYSTEM_MONITOR \<or> agent_type task = OPTIMIZER"
  then show "execute_task fr orch task ck =
        (task\<lparr>status := ''completed'', started_at := Some (started_now ck),
              result := Some (ErrorPayload
                (''Unknown agent type: '' @ agent_type_str (agent_type task))),
              completed_at := Some (completed_now ck)\<rparr>, orch)"
    by (rule execute_task_no_agent)
next
  assume a: "dequeue_next (task_queue orch) = Some (task, rest) \<and>
    (agent_type task = SYSTEM_MONITOR \<or> agent_type task = OPTIMIZER)"
  then have "execute_task fr (orch\<lparr>task_queue := rest\<rparr>) task ck =
        (task\<lparr>status := ''completed'', started_at := Some (started_now ck),
              result := Some (ErrorPayload
                (''Unknown agent type: '' @ agent_type_str (agent_type task))),
              completed_at := Some (completed_now ck)\<rparr>, orch\<lparr>task_queue := rest\<rparr>)"
    by (simp add: execute_task_no_agent)
  with a show "task_processing_iteration fr orch ck =
        (Some (task\<lparr>status := ''completed'', started_at := Some (started_now ck),
                    result := Some (ErrorPayload
                      (''Unknown agent type: '' @ agent_type_str (agent_type task))),
                    completed_at := Some (completed_now ck)\<rparr>),
         orch\<lparr>task_queue := rest\<rparr>)"
    by (simp add: task_processing_iteration_def)
next
  show o: "agent_type (optimization_task fr mc optimization) = OPTIMIZER"
    by (simp add: optimization_task_def new_task_def)
  show "priority (optimization_task fr mc optimization) = MEDIUM"
    by (simp add: optimization_task_def new_task_def)
  from o have "execute_task fr orch (optimization_task fr mc optimization) ck =
     ((optimization_task fr mc optimization)
        \<lparr>status := ''completed'', started_at := Some (started_now ck),
         result := Some (ErrorPayload (''Unknown agent type: '' @
           agent_type_str (agent_type (optimization_task fr mc optimization)))),
         completed_at := Some (completed_now ck)\<rparr>, orch)"
    by (simp add: execute_task_no_agent)
  then show "fst (execute_task fr orch (optimization_task fr mc optimization) ck) =
     (optimization_task fr mc optimization)
       \<lparr>status := ''completed'', started_at := Some (started_now ck),
        result := Some (ErrorPayload ''Unknown agent type: AgentType.OPTIMIZER''),
        completed_at := Some (completed_now ck)\<rparr>"
    by (simp add: o)
qed

theorem execute_task_unknown_agent_type_completed_witness:
  "agent_type (new_task ''task_7'' SYSTEM_MONITOR LOW ''watch'' [] 0) = SYSTEM_MONITOR \<and>
   status (fst (execute_task (\<lambda>r. []) (init_orchestrator 0)
     (new_task ''task_7'' SYSTEM_MONITOR LOW ''watch'' [] 0)
     \<lparr>started_now = 1, agent_time = 7, agent_time_later = 8, agent_stamp = ''now'',
      completed_now = 2\<rparr>)) = ''completed'' \<and>
   result (fst (execute_task (\<lambda>r. []) (init_orchestrator 0)
     (new_task ''task_7'' SYSTEM_MONITOR LOW ''watch'' [] 0)
     \<lparr>started_now = 1, agent_time = 7, agent_time_later = 8, agent_stamp = ''now'',
      completed_now = 2\<rparr>)) = Some (ErrorPayload ''Unknown agent type: AgentType.SYSTEM_MONITOR'') \<and>
   completed_at (fst (execute_task (\<lambda>r. []) (init_orchestrator 0)
     (new_task ''task_7'' SYSTEM_MONITOR LOW ''watch'' [] 0)
     \<lparr>started_now = 1, agent_time = 7, agent_time_later = 8, agent_stamp = ''now'',
      completed_now = 2\<rparr>)) = Some 2 \<and>
   error_message (fst (execute_task (\<lambda>r. []) (init_orchestrator 0)
     (new_task ''task_7'' SYSTEM_MONITOR LOW ''watch'' [] 0)
     \<lparr>started_now = 1, agent_time = 7, agent_time_later = 8, agent_stamp = ''now'',
      completed_now = 2\<rparr>)) = None"
proof -
  let ?task = "new_task ''task_7'' SYSTEM_MONITOR LOW ''watch'' [] 0"
  let ?ck = "\<lparr>started_now = 1, agent_time = 7, agent_time_later = 8, agent_stamp = ''now'',
      completed_now = 2\<rparr>"
  have a: "agent_type ?task = SYSTEM_MONITOR"
    by (simp add: new_task_def)
  then have "agent_type ?task = SYSTEM_MONITOR \<or> agent_type ?task = OPTIMIZER"
    by simp
  with execute_task_unknown_agent_type_completed
    [where task = ?task and fr = "\<lambda>r. []" and orch = "init_orchestrator 0" and ck = ?ck,
      THEN conjunct1]
  have e: "execute_task (\<lambda>r. []) (init_orchestrator 0) ?task ?ck =
        (?task\<lparr>status := ''completed'', started_at := Some (started_now ?ck),
              result := Some (ErrorPayload
                (''Unknown agent type: '' @ agent_type_str (agent_type ?task))),
              completed_at := Some (completed_now ?ck)\<rparr>, init_orchestrator 0)"
    by blast
  have s1: "status (fst (execute_task (\<lambda>r. []) (init_orchestrator 0) ?task ?ck)) = ''completed''"
    unfolding e by simp
  have s2: "result (fst (execute_task (\<lambda>r. []) (init_orchestrator 0) ?task ?ck)) =
      Some (ErrorPayload ''Unknown agent type: AgentType.SYSTEM_MONITOR'')"
    unfolding e by (simp add: a)
  have s3: "completed_at (fst (execute_task (\<lambda>r. []) (init_orchestrator 0) ?task ?ck)) = Some 2"
    unfolding e by simp
  have s4: "error_message (fst (execute_task (\<lambda>r. []) (init_orchestrator 0) ?task ?ck)) = None"
    unfolding e by (simp add: new_task_def)
  show ?thesis
    using a s1 s2 s3 s4 by simp
qed

subsection \<open>Every queued task is pending\<close>

lemma foldl_enqueue: "foldl enqueue q ts = q @ ts"
  by (induction ts arbitrary: q) (simp_all add: enqueue_def)

lemma pending_filters:
  "list_all (\<lambda>t. status t = ''pending'') q \<Longrightarrow>
   filter (\<lambda>t. status t = ''in_progress'') q = [] \<and> filter (\<lambda>t. status t = ''completed'') q = []"
  by (induction q) auto

lemma dequeue_next_subset:
  "dequeue_next q = Some (t, rest) \<Longrightarrow> set rest \<subseteq> set q"
proof -
  assume "dequeue_next q = Some (t, rest)"
  then have "sort_queue q = t # rest"
    by (auto simp: dequeue_next_def split: if_splits list.splits)
  then have "set (t # rest) = set q"
    by (metis sort_queue_def set_sort)
  then show ?thesis by auto
qed

lemma execute_task_keeps_queue:
  "task_queue (snd (execute_task fr orch task ck)) = task_queue orch \<and>
   system_state (snd (execute_task fr orch task ck)) = system_state orch"
  by (auto simp: execute_task_def dispatch_task_def Let_def split: sum.splits prod.splits)

lemma processing_keeps_pending:
  "list_all (\<lambda>t. status t = ''pending'') (task_queue orch) \<Longrightarrow>
   list_all (\<lambda>t. status t = ''pending'') (task_queue (snd (task_processing_iteration fr orch ck))) \<and>
   system_state (snd (task_processing_iteration fr orch ck)) = system_state orch"
proof (cases "dequeue_next (task_queue orch)")
  case None
  assume "list_all (\<lambda>t. status t = ''pending'') (task_queue orch)"
  with None show ?thesis
    by (simp add: task_processing_iteration_def)
next
  case (Some p)
  assume all: "list_all (\<lambda>t. status t = ''pending'') (task_queue orch)"
  obtain t rest where p: "p = (t, rest)" by (cases p)
  from Some p have "set rest \<subseteq> set (task_queue orch)"
    by (simp add: dequeue_next_subset)
  with all have r: "list_all (\<lambda>t. status t = ''pending'') rest"
    by (auto simp: list_all_iff)
  have "snd (task_processing_iteration fr orch ck) =
      snd (execute_task fr (orch\<lparr>task_queue := rest\<rparr>) t ck)"
    using Some p by (simp add: task_processing_iteration_def split: prod.splits)
  then show ?thesis
    using r execute_task_keeps_queue [of fr "orch\<lparr>task_queue := rest\<rparr>" t ck] by simp
qed

lemma monitoring_keeps_pending:
  "list_all (\<lambda>t. status t = ''pending'') (task_queue orch) \<Longrightarrow>
   completed_tasks (system_state orch) = 0 \<Longrightarrow>
   list_all (\<lambda>t. status t = ''pending'') (task_queue (monitoring_iteration fr orch mc)) \<and>
   completed_tasks (system_state (monitoring_iteration fr orch mc)) = 0 \<and>
   active_tasks (system_state (monitoring_iteration fr orch mc)) = 0"
proof -
  assume all: "list_all (\<lambda>t. status t = ''pending'') (task_queue orch)"
    and zero: "completed_tasks (system_state orch) = 0"
  have h: "list_all (\<lambda>t. status t = ''pending'') (map (healing_task fr mc) xs)" for xs
    by (induction xs) (simp_all add: healing_task_def new_task_def)
  have o: "list_all (\<lambda>t. status t = ''pending'') (map (optimization_task fr mc) xs)" for xs
    by (induction xs) (simp_all add: optimization_task_def new_task_def)
  from pending_filters [OF all] zero h o all show ?thesis
    by (simp add: monitoring_iteration_def update_system_state_def Let_def foldl_enqueue)
qed

lemma creation_keeps_pending:
  "list_all (\<lambda>t. status t = ''pending'') (task_queue orch) \<Longrightarrow>
   list_all (\<lambda>t. status t = ''pending'') (task_queue (snd (create_task fr orch request t now))) \<and>
   system_state (snd (create_task fr orch request t now)) = system_state orch"
  by (auto simp: create_task_def enqueue_def new_task_def Let_def split: option.splits)

lemma deciding_keeps_queue:
  "task_queue (snd (rest_make_decision orch ctx t stamp)) = task_queue orch \<and>
   system_state (snd (rest_make_decision orch ctx t stamp)) = system_state orch"
  by (auto simp: rest_make_decision_def split: sum.splits prod.splits)

lemma reachable_invariant:
  "reachable fr orch \<Longrightarrow>
   list_all (\<lambda>t. status t = ''pending'') (task_queue orch) \<and>
   completed_tasks (system_state orch) = 0 \<and> active_tasks (system_state orch) = 0"
proof (induction rule: reachable.induct)
  case (initial now)
  then show ?case by (simp add: init_orchestrator_def)
next
  case (monitoring orch mc)
  then show ?case using monitoring_keeps_pending [of orch fr mc] by simp
next
  case (processing orch ck)
  then show ?case using processing_keeps_pending [of orch fr ck] by simp
next
  case (creation orch request t now)
  then show ?case using creation_keeps_pending [of orch fr request t now] by simp
next
  case (deciding orch ctx t stamp)
  then show ?case using deciding_keeps_queue [of orch ctx t stamp] by simp
qed

text \<open>
  Claim C9. In every state the orchestrator reaches from its initial state by iterations
  of the monitoring loop, iterations of the processing loop, task creations and decisions
  over REST, every task in the queue has status pending: the producers append pending
  tasks, and the processing loop pops a task off the queue before it changes its status.
  So every state refresh counts no task in progress and adds nothing to completed_tasks,
  which stays 0: the threshold of more than 100 completed tasks is never passed and no
  optimization is detected.
\<close>

theorem queued_tasks_pending_completed_zero:
  "reachable fr orch \<Longrightarrow>
   list_all (\<lambda>t. status t = ''pending'') (task_queue orch) \<and>
   active_tasks (system_state (update_system_state orch now h1 h2)) = 0 \<and>
   completed_tasks (system_state (update_system_state orch now h1 h2)) =
     completed_tasks (system_state orch) + 0 \<and>
   completed_tasks (system_state orch) = 0 \<and>
   \<not> completed_tasks (system_state orch) > 100 \<and>
   detect_optimizations (system_state orch) = []"
proof -
  assume "reachable fr orch"
  from reachable_invariant [OF this] have
    all: "list_all (\<lambda>t. status t = ''pending'') (task_queue orch)" and
    zero: "completed_tasks (system_state orch) = 0"
    by simp_all
  from pending_filters [OF all] all zero show ?thesis
    by (simp add: update_system_state_def detect_optimizations_def)
qed

lemma busy_monitoring_queue:
  "task_queue (monitoring_iteration (\<lambda>r. []) (init_orchestrator 0)
     \<lparr>monitor_now = 1, monitor_hash_health = 3, monitor_hash_load = 69, monitor_time = 7,
      monitor_stamp = ''now''\<rparr>) =
   [healing_task (\<lambda>r. [])
      \<lparr>monitor_now = 1, monitor_hash_health = 3, monitor_hash_load = 69, monitor_time = 7,
       monitor_stamp = ''now''\<rparr>
      [(''type'', PStr ''high_load''), (''severity'', PStr ''high''),
       (''symptoms'', PList [PStr ''high_system_load'']), (''timestamp'', PStr ''now'')]]"
  by (simp add: monitoring_iteration_def update_system_state_def init_orchestrator_def Let_def
      detect_issues_def detect_optimizations_def foldl_enqueue)

theorem queued_tasks_pending_completed_zero_witness:
  "reachable (\<lambda>r. []) (monitoring_iteration (\<lambda>r. []) (init_orchestrator 0)
     \<lparr>monitor_now = 1, monitor_hash_health = 3, monitor_hash_load = 69, monitor_time = 7,
      monitor_stamp = ''now''\<rparr>) \<and>
   length (task_queue (monitoring_iteration (\<lambda>r. []) (init_orchestrator 0)
     \<lparr>monitor_now = 1, monitor_hash_health = 3, monitor_hash_load = 69, monitor_time = 7,
      monitor_stamp = ''now''\<rparr>)) = 1 \<and>
   list_all (\<lambda>t. status t = ''pending'')
     (task_queue (monitoring_iteration (\<lambda>r. []) (init_orchestrator 0)
       \<lparr>monitor_now = 1, monitor_hash_health = 3, monitor_hash_load = 69, monitor_time = 7,
        monitor_stamp = ''now''\<rparr>)) \<and>
   completed_tasks (system_state (monitoring_iteration (\<lambda>r. []) (init_orchestrator 0)
     \<lparr>monitor_now = 1, monitor_hash_health = 3, monitor_hash_load = 69, monitor_time = 7,
      monitor_stamp = ''now''\<rparr>)) = 0 \<and>
   detect_optimizations (system_state (monitoring_iteration (\<lambda>r. []) (init_orchestrator 0)
     \<lparr>monitor_now = 1, monitor_hash_health = 3, monitor_hash_load = 69, monitor_time = 7,
      monitor_stamp = ''now''\<rparr>)) = []"
proof -
  let ?mc = "\<lparr>monitor_now = 1, monitor_hash_health = 3, monitor_hash_load = 69, monitor_time = 7,
      monitor_stamp = ''now''\<rparr>"
  let ?orch = "monitoring_iteration (\<lambda>r. []) (init_orchestrator 0) ?mc"
  have r: "reachable (\<lambda>r. []) ?orch"
    by (rule reachable.monitoring) (rule reachable.initial)
  have n: "length (task_queue ?orch) = 1"
    by (simp only: busy_monitoring_queue) simp
  from queued_tasks_pending_completed_zero [OF r, of 0 0 0] r n show ?thesis
    by blast
qed


end
